theory Spec2Isabelle
  imports Complex_Main "HOL-Library.Log_Nat"
begin

section \<open>Python strings\<close>

text \<open>
  A Python \<open>str\<close> is modelled as a \<open>string\<close> over the ASCII alphabet. The three string
  methods the views call (\<open>strip\<close>, \<open>lower\<close>, \<open>title\<close>) are modelled as CPython defines
  them on ASCII text; characters with a code above 127 are treated as caseless
  non-whitespace characters.
\<close>

definition isspace :: "char \<Rightarrow> bool" where
  "isspace c = ((9::nat) \<le> of_char c \<and> of_char c \<le> (13::nat)
     \<or> (28::nat) \<le> of_char c \<and> of_char c \<le> (32::nat))"

definition isupper :: "char \<Rightarrow> bool" where
  "isupper c = ((65::nat) \<le> of_char c \<and> of_char c \<le> (90::nat))"

definition islower :: "char \<Rightarrow> bool" where
  "islower c = ((97::nat) \<le> of_char c \<and> of_char c \<le> (122::nat))"

definition lower_char :: "char \<Rightarrow> char" where
  "lower_char c = (if isupper c then char_of (of_char c + (32::nat)) else c)"

definition upper_char :: "char \<Rightarrow> char" where
  "upper_char c = (if islower c then char_of (of_char c - (32::nat)) else c)"

text \<open>\<open>s.strip()\<close>: leading and trailing whitespace removed.\<close>

definition strip :: "string \<Rightarrow> string" where
  "strip s = rev (dropWhile isspace (rev (dropWhile isspace s)))"

text \<open>\<open>s.lower()\<close>.\<close>

definition lower :: "string \<Rightarrow> string" where
  "lower s = map lower_char s"

text \<open>
  \<open>s.title()\<close>: a cased character that follows an uncased one is upper-cased, a cased
  character that follows a cased one is lower-cased. The flag is CPython's
  \<open>previous_is_cased\<close>.
\<close>

fun title_from :: "bool \<Rightarrow> string \<Rightarrow> string" where
  "title_from prev [] = []"
| "title_from prev (c # cs) =
     (if islower c then (if prev then c else upper_char c) # title_from True cs
      else if isupper c then (if prev then lower_char c else c) # title_from True cs
      else c # title_from False cs)"

definition title :: "string \<Rightarrow> string" where
  "title s = title_from False s"

section \<open>Python floats\<close>

text \<open>
  A Python \<open>float\<close> is an IEEE 754 binary64 value. A finite non-zero value and \<open>+0.0\<close>
  are represented by their exact rational value, the other values by constructors.
\<close>

datatype pyfloat = Finite rat | NegZero | PosInf | NegInf | NaN

text \<open>Rounding a rational to the nearest integer, ties to the even one.\<close>

definition rne :: "rat \<Rightarrow> int" where
  "rne q = (let f = \<lfloor>q\<rfloor>; d = q - of_int f in
     if d < 1 / 2 then f else if 1 / 2 < d then f + 1 else if even f then f else f + 1)"

definition pow2 :: "int \<Rightarrow> rat" where
  "pow2 e = (if 0 \<le> e then 2 ^ nat e else 1 / 2 ^ nat (- e))"

text \<open>The binary exponent of a positive rational: \<open>pow2 e \<le> q < pow2 (e + 1)\<close>.\<close>

definition ilog2 :: "rat \<Rightarrow> int" where
  "ilog2 q = (case quotient_of q of (a, b) \<Rightarrow>
     let n = int (floorlog 2 (nat a)) - int (floorlog 2 (nat b))
     in if pow2 n \<le> q then n else n - 1)"

text \<open>
  The binary64 value nearest to a rational (round to nearest, ties to even): 53
  significant bits, exponents from -1022 (subnormals below) to 1023, overflow to an
  infinity.
\<close>

definition fl :: "rat \<Rightarrow> pyfloat" where
  "fl q = (if q = 0 then Finite 0 else
     let e = max (ilog2 \<bar>q\<bar>) (- 1022);
         m = rne (q / pow2 (e - 52))
     in if 1024 \<le> e \<or> (e = 1023 \<and> \<bar>m\<bar> = 2 ^ 53) then (if q < 0 then NegInf else PosInf)
        else if m = 0 then (if q < 0 then NegZero else Finite 0)
        else Finite (of_int m * pow2 (e - 52)))"

text \<open>\<open>x * 100\<close> on a float: the exact product is rounded to binary64.\<close>

fun float_mul_100 :: "pyfloat \<Rightarrow> pyfloat" where
  "float_mul_100 (Finite q) = fl (q * 100)"
| "float_mul_100 f = f"

text \<open>
  \<open>round(x, 1)\<close> on a float: the exact value is rounded to one decimal place (ties to
  even) and the decimal is converted back to the nearest binary64; the sign survives a
  zero result; infinities and NaN round to themselves.
\<close>

fun float_round1 :: "pyfloat \<Rightarrow> pyfloat" where
  "float_round1 (Finite q) =
     (let k = rne (q * 10) in
      if k = 0 then (if q < 0 then NegZero else Finite 0) else fl (of_int k / 10))"
| "float_round1 f = f"

section \<open>Python values, exceptions and the operations the views apply to them\<close>

text \<open>
  The value of \<open>response.json()\<close> and the bodies of the views' responses are JSON-shaped
  Python values. A \<open>dict\<close> is an association list in insertion order, read with
  \<open>map_of\<close>.
\<close>

datatype pyval =
    PNone
  | PBool bool
  | PInt int
  | PFloat pyfloat
  | PStr string
  | PList "pyval list"
  | PDict "(string \<times> pyval) list"

text \<open>
  The exception classes that matter to the handlers. \<open>Timeout\<close> and \<open>ConnectionError\<close>
  are subclasses of \<open>requests.exceptions.RequestException\<close>; \<open>OtherRequestException\<close>
  is any other instance of it; \<open>OtherException\<close> is any other instance of
  \<open>Exception\<close>.
\<close>

datatype py_exception =
    Timeout
  | ConnectionError
  | OtherRequestException
  | KeyError
  | IndexError
  | TypeError
  | AttributeError
  | ValueError
  | OverflowError
  | OtherException

fun isinstance_Timeout :: "py_exception \<Rightarrow> bool" where
  "isinstance_Timeout Timeout = True"
| "isinstance_Timeout e = False"

fun isinstance_RequestException :: "py_exception \<Rightarrow> bool" where
  "isinstance_RequestException Timeout = True"
| "isinstance_RequestException ConnectionError = True"
| "isinstance_RequestException OtherRequestException = True"
| "isinstance_RequestException e = False"

text \<open>Sequencing: an exception raised by the first computation skips the second.\<close>

definition bind_exc :: "py_exception + 'a \<Rightarrow> ('a \<Rightarrow> py_exception + 'b) \<Rightarrow> py_exception + 'b" where
  "bind_exc m f = (case m of Inl e \<Rightarrow> Inl e | Inr x \<Rightarrow> f x)"

text \<open>\<open>x[k]\<close> for a string key \<open>k\<close>.\<close>

fun getitem :: "pyval \<Rightarrow> string \<Rightarrow> py_exception + pyval" where
  "getitem (PDict d) k = (case map_of d k of None \<Rightarrow> Inl KeyError | Some v \<Rightarrow> Inr v)"
| "getitem x k = Inl TypeError"

text \<open>\<open>x[k1][k2]\<close>.\<close>

definition getitem2 :: "pyval \<Rightarrow> string \<Rightarrow> string \<Rightarrow> py_exception + pyval" where
  "getitem2 x k1 k2 = bind_exc (getitem x k1) (\<lambda>y. getitem y k2)"

text \<open>\<open>x[0]\<close>.\<close>

fun getitem0 :: "pyval \<Rightarrow> py_exception + pyval" where
  "getitem0 (PList xs) = (case xs of [] \<Rightarrow> Inl IndexError | y # ys \<Rightarrow> Inr y)"
| "getitem0 (PStr s) = (case s of [] \<Rightarrow> Inl IndexError | c # cs \<Rightarrow> Inr (PStr [c]))"
| "getitem0 (PDict d) = Inl KeyError"
| "getitem0 x = Inl TypeError"

text \<open>\<open>x.get(k, default)\<close>: only a \<open>dict\<close> has the method.\<close>

fun dict_get :: "pyval \<Rightarrow> string \<Rightarrow> pyval \<Rightarrow> py_exception + pyval" where
  "dict_get (PDict d) k dflt = Inr (case map_of d k of None \<Rightarrow> dflt | Some v \<Rightarrow> v)"
| "dict_get x k dflt = Inl AttributeError"

text \<open>\<open>x.title()\<close>: only a \<open>str\<close> has the method.\<close>

fun py_title :: "pyval \<Rightarrow> py_exception + pyval" where
  "py_title (PStr s) = Inr (PStr (title s))"
| "py_title x = Inl AttributeError"

text \<open>\<open>round(x)\<close>: an \<open>int\<close> for every number; NaN and the infinities raise.\<close>

fun py_round :: "pyval \<Rightarrow> py_exception + pyval" where
  "py_round (PInt n) = Inr (PInt n)"
| "py_round (PBool b) = Inr (PInt (if b then 1 else 0))"
| "py_round (PFloat (Finite q)) = Inr (PInt (rne q))"
| "py_round (PFloat NegZero) = Inr (PInt 0)"
| "py_round (PFloat NaN) = Inl ValueError"
| "py_round (PFloat PosInf) = Inl OverflowError"
| "py_round (PFloat NegInf) = Inl OverflowError"
| "py_round x = Inl TypeError"

text \<open>\<open>round(x, 1)\<close>: an \<open>int\<close> stays an \<open>int\<close>, a \<open>float\<close> stays a \<open>float\<close>.\<close>

fun py_round1 :: "pyval \<Rightarrow> py_exception + pyval" where
  "py_round1 (PInt n) = Inr (PInt n)"
| "py_round1 (PBool b) = Inr (PInt (if b then 1 else 0))"
| "py_round1 (PFloat f) = Inr (PFloat (float_round1 f))"
| "py_round1 x = Inl TypeError"

text \<open>\<open>x * 100\<close>: numbers are multiplied, sequences are repeated.\<close>

fun py_mul_100 :: "pyval \<Rightarrow> py_exception + pyval" where
  "py_mul_100 (PInt n) = Inr (PInt (n * 100))"
| "py_mul_100 (PBool b) = Inr (PInt (if b then 100 else 0))"
| "py_mul_100 (PFloat f) = Inr (PFloat (float_mul_100 f))"
| "py_mul_100 (PStr s) = Inr (PStr (concat (replicate 100 s)))"
| "py_mul_100 (PList xs) = Inr (PList (concat (replicate 100 xs)))"
| "py_mul_100 x = Inl TypeError"

text \<open>The items a \<open>for\<close> loop over \<open>x\<close> visits.\<close>

fun py_iter :: "pyval \<Rightarrow> py_exception + pyval list" where
  "py_iter (PList xs) = Inr xs"
| "py_iter (PDict d) = Inr (map (\<lambda>kv. PStr (fst kv)) d)"
| "py_iter (PStr s) = Inr (map (\<lambda>c. PStr [c]) s)"
| "py_iter x = Inl TypeError"

text \<open>The truth value \<open>if x:\<close> tests.\<close>

fun truthy :: "pyval \<Rightarrow> bool" where
  "truthy PNone = False"
| "truthy (PBool b) = b"
| "truthy (PInt n) = (n \<noteq> 0)"
| "truthy (PFloat (Finite q)) = (q \<noteq> 0)"
| "truthy (PFloat NegZero) = False"
| "truthy (PFloat f) = True"
| "truthy (PStr s) = (s \<noteq> [])"
| "truthy (PList xs) = (xs \<noteq> [])"
| "truthy (PDict d) = (d \<noteq> [])"

text \<open>
  A dict display \<open>{k1: e1, k2: e2, ...}\<close>: the values are evaluated in order and the
  first exception leaves the display.
\<close>

fun build_dict :: "(string \<times> (py_exception + pyval)) list \<Rightarrow> py_exception + (string \<times> pyval) list" where
  "build_dict [] = Inr []"
| "build_dict ((k, m) # fields) =
     (case m of
        Inl e \<Rightarrow> Inl e
      | Inr v \<Rightarrow> (case build_dict fields of Inl e \<Rightarrow> Inl e | Inr d \<Rightarrow> Inr ((k, v) # d)))"

definition py_dict :: "(string \<times> (py_exception + pyval)) list \<Rightarrow> py_exception + pyval" where
  "py_dict fields = (case build_dict fields of Inl e \<Rightarrow> Inl e | Inr d \<Rightarrow> Inr (PDict d))"

section \<open>Requests, responses and the environment of a view\<close>

text \<open>
  \<open>request.query_params\<close> holds the decoded query string as key/value pairs in the order
  of the URL; \<open>query_params.get(key, default)\<close> returns the last value given for the key
  and the default when the key does not occur.
\<close>

record request =
  query_params :: "(string \<times> string) list"

definition qd_get :: "(string \<times> string) list \<Rightarrow> string \<Rightarrow> string \<Rightarrow> string" where
  "qd_get qs key dflt =
     (case filter (\<lambda>kv. fst kv = key) qs of [] \<Rightarrow> dflt | kv # kvs \<Rightarrow> snd (last (kv # kvs)))"

text \<open>\<open>Response(data, status=...)\<close>.\<close>

record response =
  data :: pyval
  status :: nat

text \<open>The two settings the views read.\<close>

record settings =
  WEATHER_API_BASE_URL :: string
  WEATHER_API_KEY :: string

text \<open>
  What \<open>requests.get\<close> returns: the status code, and what calling \<open>.json()\<close> on the
  response gives (a value, or the exception the decoder raises).
\<close>

record http_response =
  status_code :: int
  json :: "py_exception + pyval"

text \<open>
  The calls a view issues to its two collaborators, in order: \<open>cache.get(key)\<close>,
  \<open>cache.set(key, value, timeout=ttl)\<close> and \<open>requests.get(url, params=..., timeout=...)\<close>.
\<close>

datatype event =
    CacheGet string
  | CacheSet string pyval nat
  | HttpGet string "(string \<times> pyval) list" nat

text \<open>
  The environment of one call of a view: whether the cache backend raises on a read or
  on a write, what \<open>requests.get\<close> does (raise, or return a response), and the seconds
  the upstream call takes.
\<close>

record env =
  cache_get_error :: "py_exception option"
  cache_set_error :: "py_exception option"
  upstream :: "py_exception + http_response"
  upstream_seconds :: nat

text \<open>
  Modelled from the spec: the cache backend behind \<open>django.core.cache.cache\<close>, which is
  configured outside the files of the views. It is the key-value store of the
  specification, \<open>get(key)\<close> giving the value or \<open>None\<close> and \<open>set(key, value, ttl)\<close>
  keeping the value for \<open>ttl\<close> seconds: a store maps a key to its value and the instant
  the entry expires. A call that raises leaves the store as it was.
\<close>

type_synonym cache_store = "string \<Rightarrow> (pyval \<times> nat) option"

definition cache_get :: "env \<Rightarrow> nat \<Rightarrow> cache_store \<Rightarrow> string \<Rightarrow> py_exception + pyval" where
  "cache_get ev now store key =
     (case cache_get_error ev of
        Some e \<Rightarrow> Inl e
      | None \<Rightarrow>
          (case store key of
             None \<Rightarrow> Inr PNone
           | Some entry \<Rightarrow> if now < snd entry then Inr (fst entry) else Inr PNone))"

definition cache_set :: "env \<Rightarrow> nat \<Rightarrow> cache_store \<Rightarrow> string \<Rightarrow> pyval \<Rightarrow> nat \<Rightarrow> py_exception + cache_store" where
  "cache_set ev now store key v ttl =
     (case cache_set_error ev of
        Some e \<Rightarrow> Inl e
      | None \<Rightarrow> Inr (store(key \<mapsto> (v, now + ttl))))"

text \<open>The body \<open>{'success': False, 'message': msg}\<close> of every error response.\<close>

definition failure :: "string \<Rightarrow> nat \<Rightarrow> response" where
  "failure msg code = \<lparr>data = PDict [(''success'', PBool False), (''message'', PStr msg)], status = code\<rparr>"

definition not_found_message :: "string \<Rightarrow> string" where
  "not_found_message city = ''City '' @ [CHR 0x22] @ city @ [CHR 0x22] @ '' not found''"

section \<open>CurrentWeatherView\<close>

definition current_cache_key :: "string \<Rightarrow> string" where
  "current_cache_key city = ''weather_current_'' @ lower city"

text \<open>The dict \<open>weather_data\<close> built from the decoded upstream body.\<close>

definition weather_data :: "pyval \<Rightarrow> py_exception + pyval" where
  "weather_data d = py_dict
     [(''success'', Inr (PBool True)),
      (''city'', getitem d ''name''),
      (''country'', getitem2 d ''sys'' ''country''),
      (''coordinates'', py_dict
         [(''lat'', getitem2 d ''coord'' ''lat''),
          (''lon'', getitem2 d ''coord'' ''lon'')]),
      (''temperature'', bind_exc (getitem2 d ''main'' ''temp'') py_round),
      (''feels_like'', bind_exc (getitem2 d ''main'' ''feels_like'') py_round),
      (''temp_min'', bind_exc (getitem2 d ''main'' ''temp_min'') py_round),
      (''temp_max'', bind_exc (getitem2 d ''main'' ''temp_max'') py_round),
      (''humidity'', getitem2 d ''main'' ''humidity''),
      (''pressure'', getitem2 d ''main'' ''pressure''),
      (''description'',
         bind_exc (bind_exc (bind_exc (getitem d ''weather'') getitem0) (\<lambda>w. getitem w ''description'')) py_title),
      (''main'', bind_exc (bind_exc (getitem d ''weather'') getitem0) (\<lambda>w. getitem w ''main'')),
      (''icon'', bind_exc (bind_exc (getitem d ''weather'') getitem0) (\<lambda>w. getitem w ''icon'')),
      (''wind_speed'', bind_exc (getitem2 d ''wind'' ''speed'') py_round1),
      (''wind_deg'', bind_exc (getitem d ''wind'') (\<lambda>w. dict_get w ''deg'' (PInt 0))),
      (''clouds'', getitem2 d ''clouds'' ''all''),
      (''visibility'', dict_get d ''visibility'' (PInt 0)),
      (''sunrise'', getitem2 d ''sys'' ''sunrise''),
      (''sunset'', getitem2 d ''sys'' ''sunset''),
      (''timezone'', getitem d ''timezone''),
      (''timestamp'', getitem d ''dt'')]"

text \<open>
  The \<open>try\<close> block of \<open>CurrentWeatherView.get\<close>: what it returns or raises, the store it
  leaves and the calls it issues.
\<close>

definition current_try ::
  "settings \<Rightarrow> env \<Rightarrow> nat \<Rightarrow> cache_store \<Rightarrow> string \<Rightarrow> string \<Rightarrow>
   (py_exception + response) \<times> cache_store \<times> event list" where
  "current_try cfg ev now store city cache_key =
     (let url = WEATHER_API_BASE_URL cfg @ ''/weather'';
          params = [(''q'', PStr city), (''appid'', PStr (WEATHER_API_KEY cfg)), (''units'', PStr ''metric'')];
          call = HttpGet url params 10
      in case upstream ev of
           Inl e \<Rightarrow> (Inl e, store, [call])
         | Inr resp \<Rightarrow>
             if status_code resp = 200 then
               (case bind_exc (json resp) weather_data of
                  Inl e \<Rightarrow> (Inl e, store, [call])
                | Inr wd \<Rightarrow>
                    (case cache_set ev (now + upstream_seconds ev) store cache_key wd 1800 of
                       Inl e \<Rightarrow> (Inl e, store, [call, CacheSet cache_key wd 1800])
                     | Inr store' \<Rightarrow>
                         (Inr \<lparr>data = wd, status = 200\<rparr>, store', [call, CacheSet cache_key wd 1800])))
             else if status_code resp = 404 then
               (Inr (failure (not_found_message city) 404), store, [call])
             else
               (Inr (failure ''Failed to fetch weather data'' 500), store, [call]))"

text \<open>The \<open>except\<close> clauses of \<open>CurrentWeatherView.get\<close>, in the order of the source.\<close>

definition current_except :: "py_exception \<Rightarrow> response" where
  "current_except e =
     (if isinstance_Timeout e then failure ''Request timeout. Please try again.'' 408
      else if isinstance_RequestException e then failure ''Network error. Please check your connection.'' 503
      else failure ''An unexpected error occurred'' 500)"

text \<open>
  \<open>CurrentWeatherView.get\<close>. The result is the response returned, or the exception that
  leaves the method; with it the store after the call and the calls issued. The cache is
  read before the \<open>try\<close> block is entered.
\<close>

definition CurrentWeatherView_get ::
  "settings \<Rightarrow> env \<Rightarrow> nat \<Rightarrow> cache_store \<Rightarrow> request \<Rightarrow>
   (py_exception + response) \<times> cache_store \<times> event list" where
  "CurrentWeatherView_get cfg ev now store req =
     (let city = strip (qd_get (query_params req) ''city'' [])
      in if city = [] then (Inr (failure ''City parameter is required'' 400), store, [])
         else
           (let cache_key = current_cache_key city
            in case cache_get ev now store cache_key of
                 Inl e \<Rightarrow> (Inl e, store, [CacheGet cache_key])
               | Inr cached_data \<Rightarrow>
                   if truthy cached_data then
                     (Inr \<lparr>data = cached_data, status = 200\<rparr>, store, [CacheGet cache_key])
                   else
                     (case current_try cfg ev now store city cache_key of
                        (Inl e, store', calls) \<Rightarrow> (Inr (current_except e), store', CacheGet cache_key # calls)
                      | (Inr r, store', calls) \<Rightarrow> (Inr r, store', CacheGet cache_key # calls))))"

section \<open>ForecastWeatherView\<close>

definition forecast_cache_key :: "string \<Rightarrow> string" where
  "forecast_cache_key city = ''weather_forecast_'' @ lower city"

text \<open>The dict appended to \<open>forecasts\<close> for one item of \<open>data['list']\<close>.\<close>

definition forecast_entry :: "pyval \<Rightarrow> py_exception + pyval" where
  "forecast_entry item = py_dict
     [(''datetime'', getitem item ''dt''),
      (''date_text'', getitem item ''dt_txt''),
      (''temperature'', bind_exc (getitem2 item ''main'' ''temp'') py_round),
      (''feels_like'', bind_exc (getitem2 item ''main'' ''feels_like'') py_round),
      (''temp_min'', bind_exc (getitem2 item ''main'' ''temp_min'') py_round),
      (''temp_max'', bind_exc (getitem2 item ''main'' ''temp_max'') py_round),
      (''humidity'', getitem2 item ''main'' ''humidity''),
      (''pressure'', getitem2 item ''main'' ''pressure''),
      (''description'',
         bind_exc (bind_exc (bind_exc (getitem item ''weather'') getitem0) (\<lambda>w. getitem w ''description'')) py_title),
      (''main'', bind_exc (bind_exc (getitem item ''weather'') getitem0) (\<lambda>w. getitem w ''main'')),
      (''icon'', bind_exc (bind_exc (getitem item ''weather'') getitem0) (\<lambda>w. getitem w ''icon'')),
      (''wind_speed'', bind_exc (getitem2 item ''wind'' ''speed'') py_round1),
      (''clouds'', getitem2 item ''clouds'' ''all''),
      (''pop'', bind_exc (dict_get item ''pop'' (PInt 0)) py_mul_100)]"

text \<open>The loop \<open>for item in data['list']: forecasts.append({...})\<close>.\<close>

fun forecast_loop :: "pyval list \<Rightarrow> pyval list \<Rightarrow> py_exception + pyval list" where
  "forecast_loop forecasts [] = Inr forecasts"
| "forecast_loop forecasts (item # items) =
     (case forecast_entry item of
        Inl e \<Rightarrow> Inl e
      | Inr entry \<Rightarrow> forecast_loop (forecasts @ [entry]) items)"

text \<open>The dict \<open>forecast_data\<close> built from the decoded upstream body.\<close>

definition forecast_data :: "pyval \<Rightarrow> py_exception + pyval" where
  "forecast_data d =
     bind_exc (bind_exc (bind_exc (getitem d ''list'') py_iter) (forecast_loop []))
       (\<lambda>forecasts. py_dict
          [(''success'', Inr (PBool True)),
           (''city'', getitem2 d ''city'' ''name''),
           (''country'', getitem2 d ''city'' ''country''),
           (''coordinates'', py_dict
              [(''lat'', bind_exc (getitem2 d ''city'' ''coord'') (\<lambda>c. getitem c ''lat'')),
               (''lon'', bind_exc (getitem2 d ''city'' ''coord'') (\<lambda>c. getitem c ''lon''))]),
           (''forecasts'', Inr (PList forecasts))])"

text \<open>The \<open>try\<close> block of \<open>ForecastWeatherView.get\<close>.\<close>

definition forecast_try ::
  "settings \<Rightarrow> env \<Rightarrow> nat \<Rightarrow> cache_store \<Rightarrow> string \<Rightarrow> string \<Rightarrow>
   (py_exception + response) \<times> cache_store \<times> event list" where
  "forecast_try cfg ev now store city cache_key =
     (let url = WEATHER_API_BASE_URL cfg @ ''/forecast'';
          params = [(''q'', PStr city), (''appid'', PStr (WEATHER_API_KEY cfg)), (''units'', PStr ''metric''),
                    (''cnt'', PInt 40)];
          call = HttpGet url params 10
      in case upstream ev of
           Inl e \<Rightarrow> (Inl e, store, [call])
         | Inr resp \<Rightarrow>
             if status_code resp = 200 then
               (case bind_exc (json resp) forecast_data of
                  Inl e \<Rightarrow> (Inl e, store, [call])
                | Inr fd \<Rightarrow>
                    (case cache_set ev (now + upstream_seconds ev) store cache_key fd 1800 of
                       Inl e \<Rightarrow> (Inl e, store, [call, CacheSet cache_key fd 1800])
                     | Inr store' \<Rightarrow>
                         (Inr \<lparr>data = fd, status = 200\<rparr>, store', [call, CacheSet cache_key fd 1800])))
             else if status_code resp = 404 then
               (Inr (failure (not_found_message city) 404), store, [call])
             else
               (Inr (failure ''Failed to fetch forecast data'' 500), store, [call]))"

text \<open>
  The \<open>except\<close> clauses of \<open>ForecastWeatherView.get\<close>: \<open>Timeout\<close>, then \<open>Exception\<close>;
  the method has no clause for \<open>RequestException\<close>.
\<close>

definition forecast_except :: "py_exception \<Rightarrow> response" where
  "forecast_except e =
     (if isinstance_Timeout e then failure ''Request timeout. Please try again.'' 408
      else failure ''An unexpected error occurred'' 500)"

text \<open>\<open>ForecastWeatherView.get\<close>.\<close>

definition ForecastWeatherView_get ::
  "settings \<Rightarrow> env \<Rightarrow> nat \<Rightarrow> cache_store \<Rightarrow> request \<Rightarrow>
   (py_exception + response) \<times> cache_store \<times> event list" where
  "ForecastWeatherView_get cfg ev now store req =
     (let city = strip (qd_get (query_params req) ''city'' [])
      in if city = [] then (Inr (failure ''City parameter is required'' 400), store, [])
         else
           (let cache_key = forecast_cache_key city
            in case cache_get ev now store cache_key of
                 Inl e \<Rightarrow> (Inl e, store, [CacheGet cache_key])
               | Inr cached_data \<Rightarrow>
                   if truthy cached_data then
                     (Inr \<lparr>data = cached_data, status = 200\<rparr>, store, [CacheGet cache_key])
                   else
                     (case forecast_try cfg ev now store city cache_key of
                        (Inl e, store', calls) \<Rightarrow> (Inr (forecast_except e), store', CacheGet cache_key # calls)
                      | (Inr r, store', calls) \<Rightarrow> (Inr r, store', CacheGet cache_key # calls))))"

section \<open>Notions the properties are stated with\<close>



text \<open>Concrete settings, requests and environments for the examples.\<close>

definition example_settings :: settings where
  "example_settings =
     \<lparr>WEATHER_API_BASE_URL = ''https://api.example.org/data/2.5'', WEATHER_API_KEY = ''secret''\<rparr>"

definition city_request :: "string \<Rightarrow> request" where
  "city_request city = \<lparr>query_params = [(''city'', city)]\<rparr>"

definition working_cache_env :: "py_exception + http_response \<Rightarrow> env" where
  "working_cache_env up =
     \<lparr>cache_get_error = None, cache_set_error = None, upstream = up, upstream_seconds = 2\<rparr>"

definition failing_cache_env :: "py_exception + http_response \<Rightarrow> env" where
  "failing_cache_env up =
     \<lparr>cache_get_error = Some OtherException, cache_set_error = Some OtherException, upstream = up,
      upstream_seconds = 2\<rparr>"

definition failing_write_env :: "py_exception + http_response \<Rightarrow> env" where
  "failing_write_env up =
     \<lparr>cache_get_error = None, cache_set_error = Some OtherException, upstream = up, upstream_seconds = 2\<rparr>"

text \<open>
  A call of a view succeeded when it returned a response with status 200. The cache
  writes of a call are the \<open>cache.set\<close> calls it issued.
\<close>

definition is_ok :: "py_exception + response \<Rightarrow> bool" where
  "is_ok res = (case res of Inl e \<Rightarrow> False | Inr r \<Rightarrow> status r = 200)"

fun is_cache_write :: "event \<Rightarrow> bool" where
  "is_cache_write (CacheSet k v ttl) = True"
| "is_cache_write c = False"

definition cache_writes :: "event list \<Rightarrow> event list" where
  "cache_writes calls = filter is_cache_write calls"

text \<open>
  The floats that the JSON decoder makes of the decimals \<open>15.6\<close>, \<open>3.47\<close> and \<open>0.42\<close>: the
  nearest binary64 values.
\<close>

definition binary64_15_6 :: pyfloat where
  "binary64_15_6 = fl (156 / 10)"

definition binary64_3_47 :: pyfloat where
  "binary64_3_47 = fl (347 / 100)"

definition binary64_0_42 :: pyfloat where
  "binary64_0_42 = fl (42 / 100)"

text \<open>
  A decoded upstream body for the current weather of London, without \<open>wind.deg\<close>, and
  the payload the view builds from it.
\<close>

definition london_body :: pyval where
  "london_body = PDict
     [(''coord'', PDict [(''lon'', PFloat (Finite (- 1 / 8))), (''lat'', PFloat (Finite (103 / 2)))]),
      (''weather'', PList [PDict [(''id'', PInt 500), (''main'', PStr ''Rain''),
                                  (''description'', PStr ''light rain''), (''icon'', PStr ''10d'')]]),
      (''main'', PDict [(''temp'', PFloat binary64_15_6), (''feels_like'', PInt 15),
                        (''temp_min'', PFloat (Finite (29 / 2))), (''temp_max'', PFloat (Finite (35 / 2))),
                        (''pressure'', PInt 1012), (''humidity'', PInt 81)]),
      (''visibility'', PInt 10000),
      (''wind'', PDict [(''speed'', PFloat binary64_3_47)]),
      (''clouds'', PDict [(''all'', PInt 75)]),
      (''dt'', PInt 1700000000),
      (''sys'', PDict [(''country'', PStr ''GB''), (''sunrise'', PInt 1699945000), (''sunset'', PInt 1699978000)]),
      (''timezone'', PInt 0),
      (''name'', PStr ''London'')]"

definition london_payload :: pyval where
  "london_payload = PDict
     [(''success'', PBool True),
      (''city'', PStr ''London''),
      (''country'', PStr ''GB''),
      (''coordinates'', PDict [(''lat'', PFloat (Finite (103 / 2))), (''lon'', PFloat (Finite (- 1 / 8)))]),
      (''temperature'', PInt 16),
      (''feels_like'', PInt 15),
      (''temp_min'', PInt 14),
      (''temp_max'', PInt 18),
      (''humidity'', PInt 81),
      (''pressure'', PInt 1012),
      (''description'', PStr ''Light Rain''),
      (''main'', PStr ''Rain''),
      (''icon'', PStr ''10d''),
      (''wind_speed'', PFloat (Finite (7 / 2))),
      (''wind_deg'', PInt 0),
      (''clouds'', PInt 75),
      (''visibility'', PInt 10000),
      (''sunrise'', PInt 1699945000),
      (''sunset'', PInt 1699978000),
      (''timezone'', PInt 0),
      (''timestamp'', PInt 1700000000)]"

text \<open>
  Two items of an upstream forecast list, the first with \<open>wind.deg\<close>, \<open>visibility\<close> and
  \<open>pop\<close>, the second without \<open>pop\<close>; the entries the view builds from them; and a forecast
  body for Paris that holds the two items.
\<close>

definition forecast_item_1 :: pyval where
  "forecast_item_1 = PDict
     [(''dt'', PInt 1700006400),
      (''main'', PDict [(''temp'', PFloat binary64_15_6), (''feels_like'', PInt 15),
                        (''temp_min'', PFloat (Finite (29 / 2))), (''temp_max'', PFloat (Finite (35 / 2))),
                        (''pressure'', PInt 1012), (''humidity'', PInt 81)]),
      (''weather'', PList [PDict [(''id'', PInt 500), (''main'', PStr ''Rain''),
                                  (''description'', PStr ''light rain''), (''icon'', PStr ''10d'')]]),
      (''clouds'', PDict [(''all'', PInt 75)]),
      (''wind'', PDict [(''speed'', PFloat binary64_3_47), (''deg'', PInt 270)]),
      (''visibility'', PInt 10000),
      (''pop'', PFloat binary64_0_42),
      (''dt_txt'', PStr ''2023-11-15 00:00:00'')]"

definition forecast_entry_1 :: pyval where
  "forecast_entry_1 = PDict
     [(''datetime'', PInt 1700006400),
      (''date_text'', PStr ''2023-11-15 00:00:00''),
      (''temperature'', PInt 16),
      (''feels_like'', PInt 15),
      (''temp_min'', PInt 14),
      (''temp_max'', PInt 18),
      (''humidity'', PInt 81),
      (''pressure'', PInt 1012),
      (''description'', PStr ''Light Rain''),
      (''main'', PStr ''Rain''),
      (''icon'', PStr ''10d''),
      (''wind_speed'', PFloat (Finite (7 / 2))),
      (''clouds'', PInt 75),
      (''pop'', PFloat (Finite 42))]"

definition forecast_item_2 :: pyval where
  "forecast_item_2 = PDict
     [(''dt'', PInt 1700017200),
      (''main'', PDict [(''temp'', PInt 12), (''feels_like'', PInt 11),
                        (''temp_min'', PInt 12), (''temp_max'', PInt 12),
                        (''pressure'', PInt 1015), (''humidity'', PInt 70)]),
      (''weather'', PList [PDict [(''id'', PInt 800), (''main'', PStr ''Clear''),
                                  (''description'', PStr ''clear sky''), (''icon'', PStr ''01n'')]]),
      (''clouds'', PDict [(''all'', PInt 0)]),
      (''wind'', PDict [(''speed'', PInt 3)]),
      (''dt_txt'', PStr ''2023-11-15 03:00:00'')]"

definition forecast_entry_2 :: pyval where
  "forecast_entry_2 = PDict
     [(''datetime'', PInt 1700017200),
      (''date_text'', PStr ''2023-11-15 03:00:00''),
      (''temperature'', PInt 12),
      (''feels_like'', PInt 11),
      (''temp_min'', PInt 12),
      (''temp_max'', PInt 12),
      (''humidity'', PInt 70),
      (''pressure'', PInt 1015),
      (''description'', PStr ''Clear Sky''),
      (''main'', PStr ''Clear''),
      (''icon'', PStr ''01n''),
      (''wind_speed'', PInt 3),
      (''clouds'', PInt 0),
      (''pop'', PInt 0)]"

definition paris_body :: pyval where
  "paris_body = PDict
     [(''cod'', PStr ''200''),
      (''cnt'', PInt 2),
      (''list'', PList [forecast_item_1, forecast_item_2]),
      (''city'', PDict [(''name'', PStr ''Paris''), (''country'', PStr ''FR''),
                        (''coord'', PDict [(''lat'', PFloat (Finite (195 / 4))), (''lon'', PFloat (Finite (9 / 4)))])])]"

definition paris_payload :: pyval where
  "paris_payload = PDict
     [(''success'', PBool True),
      (''city'', PStr ''Paris''),
      (''country'', PStr ''FR''),
      (''coordinates'', PDict [(''lat'', PFloat (Finite (195 / 4))), (''lon'', PFloat (Finite (9 / 4)))]),
      (''forecasts'', PList [forecast_entry_1, forecast_entry_2])]"

text \<open>The upstream requests of a call are the \<open>requests.get\<close> calls it issued.\<close>

fun is_upstream_call :: "event \<Rightarrow> bool" where
  "is_upstream_call (HttpGet url params t) = True"
| "is_upstream_call c = False"

definition upstream_calls :: "event list \<Rightarrow> event list" where
  "upstream_calls calls = filter is_upstream_call calls"







text \<open>The keys of a forecast entry, and those it shares with the current weather payload.\<close>

definition forecast_entry_keys :: "string list" where
  "forecast_entry_keys =
     [''datetime'', ''date_text'', ''temperature'', ''feels_like'', ''temp_min'', ''temp_max'', ''humidity'',
      ''pressure'', ''description'', ''main'', ''icon'', ''wind_speed'', ''clouds'', ''pop'']"

definition shared_keys :: "string list" where
  "shared_keys =
     [''temperature'', ''feels_like'', ''temp_min'', ''temp_max'', ''humidity'', ''pressure'', ''description'',
      ''main'', ''icon'', ''wind_speed'', ''clouds'']"

text \<open>
  The rule of each field that a forecast entry shares with the current weather payload:
  the value the field is given, computed from the upstream object \<open>x\<close> (the decoded
  body of the current weather, or one item of the forecast list).
\<close>

definition shared_field :: "string \<Rightarrow> pyval \<Rightarrow> py_exception + pyval" where
  "shared_field k x =
     (if k = ''temperature'' then bind_exc (getitem2 x ''main'' ''temp'') py_round
      else if k = ''feels_like'' then bind_exc (getitem2 x ''main'' ''feels_like'') py_round
      else if k = ''temp_min'' then bind_exc (getitem2 x ''main'' ''temp_min'') py_round
      else if k = ''temp_max'' then bind_exc (getitem2 x ''main'' ''temp_max'') py_round
      else if k = ''humidity'' then getitem2 x ''main'' ''humidity''
      else if k = ''pressure'' then getitem2 x ''main'' ''pressure''
      else if k = ''description'' then
        bind_exc (bind_exc (bind_exc (getitem x ''weather'') getitem0) (\<lambda>w. getitem w ''description'')) py_title
      else if k = ''main'' then bind_exc (bind_exc (getitem x ''weather'') getitem0) (\<lambda>w. getitem w ''main'')
      else if k = ''icon'' then bind_exc (bind_exc (getitem x ''weather'') getitem0) (\<lambda>w. getitem w ''icon'')
      else if k = ''wind_speed'' then bind_exc (getitem2 x ''wind'' ''speed'') py_round1
      else if k = ''clouds'' then getitem2 x ''clouds'' ''all''
      else Inl KeyError)"

section \<open>Facts about rounding\<close>


lemma rne_eqI: "of_int n - 1 / 2 < q \<Longrightarrow> q < of_int n + 1 / 2 \<Longrightarrow> rne q = n"
proof -
  assume a: "of_int n - 1 / 2 < q" "q < of_int n + 1 / 2"
  have f: "of_int \<lfloor>q\<rfloor> \<le> q" "q < of_int \<lfloor>q\<rfloor> + 1" by linarith+
  have "\<lfloor>q\<rfloor> = n \<or> \<lfloor>q\<rfloor> = n - 1" using a f by linarith
  then show ?thesis using a f
    by (auto simp: rne_def Let_def)
qed

lemma pow2_powi: "pow2 e = 2 powi e"
  by (simp add: pow2_def power_int_def inverse_eq_divide power_one_over)

lemma pow2_pos: "0 < pow2 e"
  by (simp add: pow2_def)

lemma pow2_Suc: "pow2 (e + 1) = 2 * pow2 e"
  by (simp add: pow2_powi power_int_add)

lemma pow2_le: "e \<le> e' \<Longrightarrow> pow2 e \<le> pow2 e'"
  by (simp add: pow2_powi power_int_increasing)

lemma pow2_diff_nat: "pow2 (int m - int k) = 2 ^ m / 2 ^ k"
  by (simp add: pow2_powi power_int_diff)

text \<open>\<open>ilog2\<close> finds the binade of a positive rational.\<close>

lemma ilog2_bounds:
  assumes "0 < q"
  shows "pow2 (ilog2 q) \<le> q \<and> q < pow2 (ilog2 q + 1)"
proof -
  obtain a b where ab: "quotient_of q = (a, b)" by (cases "quotient_of q")
  have b: "0 < b" using ab by (rule quotient_of_denom_pos)
  have q: "q = of_int a / of_int b" using ab by (rule quotient_of_div)
  have a: "0 < a" using assms b q by (simp add: zero_less_divide_iff)
  define la where "la = floorlog 2 (nat a)"
  define lb where "lb = floorlog 2 (nat b)"
  define n where "n = int la - int lb"
  have la: "2 ^ (la - 1) \<le> nat a" "nat a < 2 ^ la"
    using floorlog_bounds [of "nat a" 2] a by (simp_all add: la_def)
  have lb: "2 ^ (lb - 1) \<le> nat b" "nat b < 2 ^ lb"
    using floorlog_bounds [of "nat b" 2] b by (simp_all add: lb_def)
  have la0: "0 < la" using a by (simp add: la_def floorlog_def)
  have lb0: "0 < lb" using b by (simp add: lb_def floorlog_def)
  have ra: "(2::rat) ^ (la - 1) \<le> of_int a" "of_int a < (2::rat) ^ la"
  proof -
    have "of_nat (2 ^ (la - 1)) \<le> (of_nat (nat a) :: rat)" using la(1) by (simp only: of_nat_le_iff)
    then show "(2::rat) ^ (la - 1) \<le> of_int a" using a by simp
    have "(of_nat (nat a) :: rat) < of_nat (2 ^ la)" using la(2) by (simp only: of_nat_less_iff)
    then show "of_int a < (2::rat) ^ la" using a by simp
  qed
  have rb: "(2::rat) ^ (lb - 1) \<le> of_int b" "of_int b < (2::rat) ^ lb"
  proof -
    have "of_nat (2 ^ (lb - 1)) \<le> (of_nat (nat b) :: rat)" using lb(1) by (simp only: of_nat_le_iff)
    then show "(2::rat) ^ (lb - 1) \<le> of_int b" using b by simp
    have "(of_nat (nat b) :: rat) < of_nat (2 ^ lb)" using lb(2) by (simp only: of_nat_less_iff)
    then show "of_int b < (2::rat) ^ lb" using b by simp
  qed
  have pa: "(2::rat) ^ la = 2 * 2 ^ (la - 1)" using la0 by (cases la) simp_all
  have pb: "(2::rat) ^ lb = 2 * 2 ^ (lb - 1)" using lb0 by (cases lb) simp_all
  have bpos: "(0::rat) < of_int b" using b by simp
  have upper: "q < pow2 (n + 1)"
  proof -
    have "of_int a * (2::rat) ^ lb < 2 * 2 ^ la * of_int b"
    proof -
      have "of_int a * (2::rat) ^ lb < 2 ^ la * 2 ^ lb"
        using ra(2) by simp
      also have "\<dots> = 2 * 2 ^ la * 2 ^ (lb - 1)" using pb by simp
      also have "\<dots> \<le> 2 * 2 ^ la * of_int b"
        using rb(1) by simp
      finally show ?thesis .
    qed
    then have "(of_int a :: rat) / of_int b < 2 * (2 ^ la / 2 ^ lb)"
      using bpos by (simp add: field_simps)
    then show ?thesis by (simp add: pow2_Suc n_def pow2_diff_nat q)
  qed
  have lower: "pow2 (n - 1) \<le> q"
  proof -
    have "(2::rat) ^ la * of_int b \<le> 2 * of_int a * 2 ^ lb"
    proof -
      have "(2::rat) ^ la * of_int b \<le> 2 ^ la * 2 ^ lb"
        using rb(2) by simp
      also have "\<dots> = 2 * 2 ^ (la - 1) * 2 ^ lb" using pa by simp
      also have "\<dots> \<le> 2 * of_int a * 2 ^ lb"
        using ra(1) by simp
      finally show ?thesis .
    qed
    then have "(2::rat) ^ la / 2 ^ lb \<le> 2 * (of_int a / of_int b)"
      using bpos by (simp add: field_simps)
    moreover have "pow2 n = 2 * pow2 (n - 1)" using pow2_Suc [of "n - 1"] by simp
    ultimately show ?thesis by (simp add: n_def pow2_diff_nat q)
  qed
  have il: "ilog2 q = (if pow2 n \<le> q then n else n - 1)"
    by (simp add: ilog2_def ab Let_def n_def la_def lb_def)
  show ?thesis
  proof (cases "pow2 n \<le> q")
    case True
    then show ?thesis using upper il by simp
  next
    case False
    then show ?thesis using lower il by simp
  qed
qed

lemma ilog2_eqI:
  assumes "pow2 e \<le> q" "q < pow2 (e + 1)"
  shows "ilog2 q = e"
proof -
  have q: "0 < q" using assms(1) pow2_pos [of e] by linarith
  note b = ilog2_bounds [OF q]
  have "\<not> ilog2 q < e"
  proof
    assume "ilog2 q < e"
    then have "pow2 (ilog2 q + 1) \<le> pow2 e" by (intro pow2_le) simp
    then show False using b assms by linarith
  qed
  moreover have "\<not> e < ilog2 q"
  proof
    assume "e < ilog2 q"
    then have "pow2 (e + 1) \<le> pow2 (ilog2 q)" by (intro pow2_le) simp
    then show False using b assms by linarith
  qed
  ultimately show ?thesis by simp
qed

text \<open>The value of \<open>fl\<close> in a normal binade, from the rounded significand.\<close>

lemma fl_eqI:
  assumes "pow2 e \<le> \<bar>q\<bar>" "\<bar>q\<bar> < pow2 (e + 1)" "- 1022 \<le> e" "e < 1023"
    and "rne (q / pow2 (e - 52)) = m" "m \<noteq> 0"
  shows "fl q = Finite (of_int m * pow2 (e - 52))"
proof -
  have "ilog2 \<bar>q\<bar> = e" using assms(1,2) by (rule ilog2_eqI)
  moreover have "q \<noteq> 0" using assms(1) pow2_pos [of e] by auto
  ultimately show ?thesis using assms(3-) by (simp add: fl_def Let_def max_def)
qed

text \<open>The binary64 values of the decimals \<open>15.6\<close>, \<open>3.47\<close>, \<open>3.5\<close> and \<open>0.42\<close>.\<close>

lemma fl_15_6: "fl (156 / 10) = Finite (8782019273372467 / 562949953421312)"
proof -
  have "fl (156 / 10) = Finite (of_int 8782019273372467 * pow2 (3 - 52))"
  proof (rule fl_eqI)
    show "rne (156 / 10 / pow2 (3 - 52)) = 8782019273372467"
      by (rule rne_eqI) (simp_all add: pow2_def)
  qed (simp_all add: pow2_def)
  then show ?thesis by (simp add: pow2_def)
qed

lemma fl_3_47: "fl (347 / 100) = Finite (7813745353487811 / 2251799813685248)"
proof -
  have "fl (347 / 100) = Finite (of_int 7813745353487811 * pow2 (1 - 52))"
  proof (rule fl_eqI)
    show "rne (347 / 100 / pow2 (1 - 52)) = 7813745353487811"
      by (rule rne_eqI) (simp_all add: pow2_def)
  qed (simp_all add: pow2_def)
  then show ?thesis by (simp add: pow2_def)
qed

lemma fl_3_5: "fl (35 / 10) = Finite (7 / 2)"
proof -
  have "fl (35 / 10) = Finite (of_int (7 * 2 ^ 50) * pow2 (1 - 52))"
  proof (rule fl_eqI)
    show "rne (35 / 10 / pow2 (1 - 52)) = 7 * 2 ^ 50"
      by (rule rne_eqI) (simp_all add: pow2_def)
  qed (simp_all add: pow2_def)
  then show ?thesis by (simp add: pow2_def)
qed

lemma fl_0_42: "fl (42 / 100) = Finite (7566047373982433 / 18014398509481984)"
proof -
  have "fl (42 / 100) = Finite (of_int 7566047373982433 * pow2 (- 2 - 52))"
  proof (rule fl_eqI)
    show "rne (42 / 100 / pow2 (- 2 - 52)) = 7566047373982433"
      by (rule rne_eqI) (simp_all add: pow2_def)
  qed (simp_all add: pow2_def)
  then show ?thesis by (simp add: pow2_def)
qed

lemma fl_0_42_times_100: "fl (7566047373982433 / 18014398509481984 * 100) = Finite 42"
proof -
  have "fl (7566047373982433 / 18014398509481984 * 100) = Finite (of_int (42 * 2 ^ 47) * pow2 (5 - 52))"
  proof (rule fl_eqI)
    show "rne (7566047373982433 / 18014398509481984 * 100 / pow2 (5 - 52)) = 42 * 2 ^ 47"
      by (rule rne_eqI) (simp_all add: pow2_def)
  qed (simp_all add: pow2_def)
  then show ?thesis by (simp add: pow2_def)
qed

section \<open>Facts about the string methods\<close>










lemma strip_London: "strip ''London'' = ''London''"
  by code_simp

lemma lower_London: "lower ''London'' = ''london''"
  by code_simp

section \<open>Validation of the city parameter\<close>



text \<open>
  Claim C10. A request whose query string has no \<open>city\<close> parameter is handled as the
  request with an empty \<open>city\<close>: both views return for it what they return for the empty
  city, which is the response \<open>City parameter is required\<close> with status 400, the store
  untouched and no call issued.
\<close>

theorem missing_city_parameter_is_empty_city:
  assumes "''city'' \<notin> fst ` set (query_params req)"
  shows "CurrentWeatherView_get cfg ev now store req =
           CurrentWeatherView_get cfg ev now store (req\<lparr>query_params := [(''city'', [])]\<rparr>)
       \<and> ForecastWeatherView_get cfg ev now store req =
           ForecastWeatherView_get cfg ev now store (req\<lparr>query_params := [(''city'', [])]\<rparr>)
       \<and> CurrentWeatherView_get cfg ev now store req =
           (Inr \<lparr>data = PDict [(''success'', PBool False), (''message'', PStr ''City parameter is required'')],
                 status = 400\<rparr>, store, [])
       \<and> ForecastWeatherView_get cfg ev now store req =
           (Inr \<lparr>data = PDict [(''success'', PBool False), (''message'', PStr ''City parameter is required'')],
                 status = 400\<rparr>, store, [])"
proof -
  have "filter (\<lambda>kv. fst kv = ''city'') (query_params req) = []"
    using assms by (force simp: filter_empty_conv)
  then have a: "qd_get (query_params req) ''city'' [] = []"
    by (simp add: qd_get_def)
  have b: "qd_get [(''city'', [])] ''city'' [] = []"
    by (simp add: qd_get_def)
  have s: "strip [] = []" by (simp add: strip_def)
  show ?thesis
    by (simp add: CurrentWeatherView_get_def ForecastWeatherView_get_def a b s failure_def)
qed

theorem missing_city_parameter_is_empty_city_witness:
  "''city'' \<notin> fst ` set (query_params \<lparr>query_params = [(''lang'', ''en'')]\<rparr>) \<and>
   CurrentWeatherView_get example_settings (failing_cache_env (Inl Timeout)) 0 Map.empty
       \<lparr>query_params = [(''lang'', ''en'')]\<rparr> =
     (Inr \<lparr>data = PDict [(''success'', PBool False), (''message'', PStr ''City parameter is required'')],
           status = 400\<rparr>, Map.empty, []) \<and>
   ForecastWeatherView_get example_settings (failing_cache_env (Inl Timeout)) 0 Map.empty
       \<lparr>query_params = [(''lang'', ''en'')]\<rparr> =
     (Inr \<lparr>data = PDict [(''success'', PBool False), (''message'', PStr ''City parameter is required'')],
           status = 400\<rparr>, Map.empty, [])"
proof -
  have a: "''city'' \<notin> fst ` set (query_params \<lparr>query_params = [(''lang'', ''en'')]\<rparr>)" by simp
  show ?thesis
    using a missing_city_parameter_is_empty_city [OF a, of example_settings "failing_cache_env (Inl Timeout)" 0 Map.empty]
    by blast
qed

section \<open>Cache keys\<close>



section \<open>The handlers of the two views differ\<close>

text \<open>
  Claim C1. A connection failure of the upstream request for London, with an empty
  cache: the forecast view answers \<open>An unexpected error occurred\<close> with status 500,
  where the current view answers \<open>Network error\<close> with status 503.
\<close>

theorem forecast_network_failure_answers_500:
  "ForecastWeatherView_get example_settings (working_cache_env (Inl ConnectionError)) 0 Map.empty
       (city_request ''London'') =
     (Inr \<lparr>data = PDict [(''success'', PBool False), (''message'', PStr ''An unexpected error occurred'')],
           status = 500\<rparr>,
      Map.empty,
      [CacheGet ''weather_forecast_london'',
       HttpGet ''https://api.example.org/data/2.5/forecast''
         [(''q'', PStr ''London''), (''appid'', PStr ''secret''), (''units'', PStr ''metric''), (''cnt'', PInt 40)] 10])
   \<and> CurrentWeatherView_get example_settings (working_cache_env (Inl ConnectionError)) 0 Map.empty
       (city_request ''London'') =
     (Inr \<lparr>data = PDict [(''success'', PBool False),
                          (''message'', PStr ''Network error. Please check your connection.'')],
           status = 503\<rparr>,
      Map.empty,
      [CacheGet ''weather_current_london'',
       HttpGet ''https://api.example.org/data/2.5/weather''
         [(''q'', PStr ''London''), (''appid'', PStr ''secret''), (''units'', PStr ''metric'')] 10])"
  by (simp add: ForecastWeatherView_get_def CurrentWeatherView_get_def forecast_try_def current_try_def
      forecast_except_def current_except_def cache_get_def failure_def working_cache_env_def
      example_settings_def city_request_def qd_get_def strip_London lower_London
      forecast_cache_key_def current_cache_key_def)

section \<open>The examples evaluated\<close>

lemma round_15_6: "py_round (PFloat binary64_15_6) = Inr (PInt 16)"
proof -
  have "rne (8782019273372467 / 562949953421312) = 16" by (rule rne_eqI) simp_all
  then show ?thesis unfolding binary64_15_6_def fl_15_6 by simp
qed

lemma rne_tie: "rne (of_int n + 1 / 2) = (if even n then n else n + 1)"
proof -
  have "\<lfloor>(of_int n :: rat) + 1 / 2\<rfloor> = n" by (rule floor_unique) simp_all
  then show ?thesis by (simp add: rne_def Let_def)
qed

lemma rne_14_5: "rne (29 / 2) = 14"
  using rne_tie [of 14] by simp

lemma rne_17_5: "rne (35 / 2) = 18"
  using rne_tie [of 17] by simp

lemma round1_3_47: "float_round1 binary64_3_47 = Finite (7 / 2)"
proof -
  have "rne (7813745353487811 / 2251799813685248 * 10) = 35" by (rule rne_eqI) simp_all
  then show ?thesis unfolding binary64_3_47_def fl_3_47 using fl_3_5 by simp
qed

lemma mul_0_42: "float_mul_100 binary64_0_42 = Finite 42"
  unfolding binary64_0_42_def fl_0_42 by (simp only: float_mul_100.simps fl_0_42_times_100)

lemma title_light_rain: "title ''light rain'' = ''Light Rain''"
  by code_simp

lemma title_clear_sky: "title ''clear sky'' = ''Clear Sky''"
  by code_simp

lemma weather_data_london: "weather_data london_body = Inr london_payload"
  by (simp add: weather_data_def london_body_def london_payload_def py_dict_def getitem2_def bind_exc_def
      round_15_6 rne_14_5 rne_17_5 round1_3_47 title_light_rain)

lemma forecast_entry_item_1: "forecast_entry forecast_item_1 = Inr forecast_entry_1"
  by (simp add: forecast_entry_def forecast_item_1_def forecast_entry_1_def py_dict_def getitem2_def bind_exc_def
      round_15_6 rne_14_5 rne_17_5 round1_3_47 mul_0_42 title_light_rain)

lemma forecast_entry_item_2: "forecast_entry forecast_item_2 = Inr forecast_entry_2"
  by (simp add: forecast_entry_def forecast_item_2_def forecast_entry_2_def py_dict_def getitem2_def bind_exc_def
      title_clear_sky)

lemma forecast_data_paris: "forecast_data paris_body = Inr paris_payload"
  by (simp add: forecast_data_def paris_body_def paris_payload_def py_dict_def getitem2_def bind_exc_def
      forecast_entry_item_1 forecast_entry_item_2)

section \<open>The paths through the views\<close>

lemma current_try_cases:
  assumes "current_try cfg ev now store city key = (res, store', calls)"
  shows "(\<exists>e. upstream ev = Inl e \<and> res = Inl e \<and> store' = store \<and> cache_writes calls = [])
       \<or> (\<exists>resp. upstream ev = Inr resp \<and> status_code resp \<noteq> 200 \<and> store' = store \<and> cache_writes calls = []
             \<and> (\<exists>r. res = Inr r \<and> (status r = 404 \<or> status r = 500)))
       \<or> (\<exists>resp e. upstream ev = Inr resp \<and> status_code resp = 200 \<and> bind_exc (json resp) weather_data = Inl e
             \<and> res = Inl e \<and> store' = store \<and> cache_writes calls = [])
       \<or> (\<exists>resp wd e. upstream ev = Inr resp \<and> status_code resp = 200 \<and> bind_exc (json resp) weather_data = Inr wd
             \<and> cache_set_error ev = Some e \<and> res = Inl e \<and> store' = store
             \<and> cache_writes calls = [CacheSet key wd 1800])
       \<or> (\<exists>resp wd. upstream ev = Inr resp \<and> status_code resp = 200 \<and> bind_exc (json resp) weather_data = Inr wd
             \<and> cache_set_error ev = None \<and> res = Inr \<lparr>data = wd, status = 200\<rparr>
             \<and> store' = store(key \<mapsto> (wd, now + upstream_seconds ev + 1800))
             \<and> cache_writes calls = [CacheSet key wd 1800])"
  using assms
  by (auto simp: current_try_def Let_def cache_writes_def cache_set_def failure_def
      split: sum.splits if_splits option.splits)

lemma forecast_try_cases:
  assumes "forecast_try cfg ev now store city key = (res, store', calls)"
  shows "(\<exists>e. upstream ev = Inl e \<and> res = Inl e \<and> store' = store \<and> cache_writes calls = [])
       \<or> (\<exists>resp. upstream ev = Inr resp \<and> status_code resp \<noteq> 200 \<and> store' = store \<and> cache_writes calls = []
             \<and> (\<exists>r. res = Inr r \<and> (status r = 404 \<or> status r = 500)))
       \<or> (\<exists>resp e. upstream ev = Inr resp \<and> status_code resp = 200 \<and> bind_exc (json resp) forecast_data = Inl e
             \<and> res = Inl e \<and> store' = store \<and> cache_writes calls = [])
       \<or> (\<exists>resp fd e. upstream ev = Inr resp \<and> status_code resp = 200 \<and> bind_exc (json resp) forecast_data = Inr fd
             \<and> cache_set_error ev = Some e \<and> res = Inl e \<and> store' = store
             \<and> cache_writes calls = [CacheSet key fd 1800])
       \<or> (\<exists>resp fd. upstream ev = Inr resp \<and> status_code resp = 200 \<and> bind_exc (json resp) forecast_data = Inr fd
             \<and> cache_set_error ev = None \<and> res = Inr \<lparr>data = fd, status = 200\<rparr>
             \<and> store' = store(key \<mapsto> (fd, now + upstream_seconds ev + 1800))
             \<and> cache_writes calls = [CacheSet key fd 1800])"
  using assms
  by (auto simp: forecast_try_def Let_def cache_writes_def cache_set_def failure_def
      split: sum.splits if_splits option.splits)

lemma status_current_except: "status (current_except e) \<in> {408, 500, 503}"
  by (simp add: current_except_def failure_def)

lemma status_forecast_except: "status (forecast_except e) \<in> {408, 500}"
  by (simp add: forecast_except_def failure_def)

lemma current_view_cases:
  assumes "CurrentWeatherView_get cfg ev now store req = (res, store', calls)"
    and "city = strip (qd_get (query_params req) ''city'' [])"
    and "key = current_cache_key city"
  shows "(city = [] \<and> res = Inr (failure ''City parameter is required'' 400) \<and> store' = store \<and> calls = [])
       \<or> (city \<noteq> [] \<and> (\<exists>e. cache_get ev now store key = Inl e \<and> res = Inl e) \<and> store' = store
             \<and> calls = [CacheGet key])
       \<or> (city \<noteq> [] \<and> (\<exists>v. cache_get ev now store key = Inr v \<and> truthy v \<and> res = Inr \<lparr>data = v, status = 200\<rparr>)
             \<and> store' = store \<and> calls = [CacheGet key])
       \<or> (city \<noteq> [] \<and> (\<exists>v tres tcalls. cache_get ev now store key = Inr v \<and> \<not> truthy v
             \<and> current_try cfg ev now store city key = (tres, store', tcalls)
             \<and> calls = CacheGet key # tcalls
             \<and> res = Inr (case tres of Inl e \<Rightarrow> current_except e | Inr r \<Rightarrow> r)))"
  using assms
  by (auto simp: CurrentWeatherView_get_def Let_def split: sum.splits if_splits prod.splits)

lemma forecast_view_cases:
  assumes "ForecastWeatherView_get cfg ev now store req = (res, store', calls)"
    and "city = strip (qd_get (query_params req) ''city'' [])"
    and "key = forecast_cache_key city"
  shows "(city = [] \<and> res = Inr (failure ''City parameter is required'' 400) \<and> store' = store \<and> calls = [])
       \<or> (city \<noteq> [] \<and> (\<exists>e. cache_get ev now store key = Inl e \<and> res = Inl e) \<and> store' = store
             \<and> calls = [CacheGet key])
       \<or> (city \<noteq> [] \<and> (\<exists>v. cache_get ev now store key = Inr v \<and> truthy v \<and> res = Inr \<lparr>data = v, status = 200\<rparr>)
             \<and> store' = store \<and> calls = [CacheGet key])
       \<or> (city \<noteq> [] \<and> (\<exists>v tres tcalls. cache_get ev now store key = Inr v \<and> \<not> truthy v
             \<and> forecast_try cfg ev now store city key = (tres, store', tcalls)
             \<and> calls = CacheGet key # tcalls
             \<and> res = Inr (case tres of Inl e \<Rightarrow> forecast_except e | Inr r \<Rightarrow> r)))"
  using assms
  by (auto simp: ForecastWeatherView_get_def Let_def split: sum.splits if_splits prod.splits)

lemma status_current_except_not_ok: "status (current_except e) \<noteq> 200"
  by (simp add: current_except_def failure_def)

lemma status_forecast_except_not_ok: "status (forecast_except e) \<noteq> 200"
  by (simp add: forecast_except_def failure_def)

lemma current_write_discipline:
  assumes "CurrentWeatherView_get cfg ev now store req = (res, store', calls)"
    and "key = current_cache_key (strip (qd_get (query_params req) ''city'' []))"
  shows "(\<not> is_ok res \<longrightarrow> store' = store \<and> (cache_writes calls \<noteq> [] \<longrightarrow> cache_set_error ev \<noteq> None))
       \<and> (cache_writes calls = [] \<longrightarrow> store' = store)
       \<and> (cache_writes calls \<noteq> [] \<longrightarrow>
            (\<exists>resp wd. upstream ev = Inr resp \<and> status_code resp = 200
               \<and> bind_exc (json resp) weather_data = Inr wd
               \<and> cache_writes calls = [CacheSet key wd 1800]
               \<and> (is_ok res \<longrightarrow> res = Inr \<lparr>data = wd, status = 200\<rparr>
                     \<and> store' = store(key \<mapsto> (wd, now + upstream_seconds ev + 1800)))))"
proof -
  define city where "city = strip (qd_get (query_params req) ''city'' [])"
  have key: "key = current_cache_key city" using assms(2) by (simp add: city_def)
  note c = current_view_cases [OF assms(1) city_def key]
  consider
      (early) "store' = store" "cache_writes calls = []"
    | (tried) tres tcalls where "current_try cfg ev now store city key = (tres, store', tcalls)"
        "calls = CacheGet key # tcalls" "res = Inr (case tres of Inl e \<Rightarrow> current_except e | Inr r \<Rightarrow> r)"
    using c by (auto simp: cache_writes_def)
  then show ?thesis
  proof cases
    case early
    then show ?thesis by simp
  next
    case tried
    have w: "cache_writes calls = cache_writes tcalls" by (simp add: tried(2) cache_writes_def)
    note t = current_try_cases [OF tried(1)]
    from t show ?thesis
    proof (elim disjE exE conjE)
      fix e assume "upstream ev = Inl e" "tres = Inl e" "store' = store" "cache_writes tcalls = []"
      then show ?thesis by (simp add: w)
    next
      fix resp r assume "store' = store" "cache_writes tcalls = []"
      then show ?thesis by (simp add: w)
    next
      fix resp r assume "store' = store" "cache_writes tcalls = []"
      then show ?thesis by (simp add: w)
    next
      fix resp e assume "store' = store" "cache_writes tcalls = []"
      then show ?thesis by (simp add: w)
    next
      fix resp wd e
      assume "upstream ev = Inr resp" "status_code resp = 200" "bind_exc (json resp) weather_data = Inr wd"
        "cache_set_error ev = Some e" "tres = Inl e" "store' = store" "cache_writes tcalls = [CacheSet key wd 1800]"
      then show ?thesis
        by (simp add: w tried(3) is_ok_def status_current_except_not_ok)
    next
      fix resp wd
      assume "upstream ev = Inr resp" "status_code resp = 200" "bind_exc (json resp) weather_data = Inr wd"
        "cache_set_error ev = None" "tres = Inr \<lparr>data = wd, status = 200\<rparr>"
        "store' = store(key \<mapsto> (wd, now + upstream_seconds ev + 1800))"
        "cache_writes tcalls = [CacheSet key wd 1800]"
      then show ?thesis
        by (simp add: w tried(3) is_ok_def)
    qed
  qed
qed

lemma current_error_paths:
  assumes "CurrentWeatherView_get cfg ev now store req = (res, store', calls)"
    and "city = strip (qd_get (query_params req) ''city'' [])"
  shows "((city = [] \<or> (\<exists>e. upstream ev = Inl e)
           \<or> (\<exists>resp. upstream ev = Inr resp
                 \<and> (status_code resp \<noteq> 200 \<or> (\<exists>e. bind_exc (json resp) weather_data = Inl e))))
          \<longrightarrow> cache_writes calls = [] \<and> store' = store)
       \<and> (\<not> is_ok res \<and> cache_writes calls \<noteq> [] \<longrightarrow>
            (\<exists>e. cache_set_error ev = Some e \<and> res = Inr (current_except e)))"
proof -
  define key where "key = current_cache_key city"
  note c = current_view_cases [OF assms(1) assms(2) key_def]
  consider
      (early) "store' = store" "cache_writes calls = []"
    | (tried) tres tcalls where "city \<noteq> []" "current_try cfg ev now store city key = (tres, store', tcalls)"
        "calls = CacheGet key # tcalls" "res = Inr (case tres of Inl e \<Rightarrow> current_except e | Inr r \<Rightarrow> r)"
    using c by (auto simp: cache_writes_def)
  then show ?thesis
  proof cases
    case early
    then show ?thesis by simp
  next
    case tried
    have w: "cache_writes calls = cache_writes tcalls" by (simp add: tried(3) cache_writes_def)
    note t = current_try_cases [OF tried(2)]
    from t show ?thesis
    proof (elim disjE exE conjE)
      fix e assume "upstream ev = Inl e" "tres = Inl e" "store' = store" "cache_writes tcalls = []"
      then show ?thesis by (simp add: w)
    next
      fix resp r assume "store' = store" "cache_writes tcalls = []"
      then show ?thesis by (simp add: w)
    next
      fix resp r assume "store' = store" "cache_writes tcalls = []"
      then show ?thesis by (simp add: w)
    next
      fix resp e assume "store' = store" "cache_writes tcalls = []"
      then show ?thesis by (simp add: w)
    next
      fix resp wd e
      assume "upstream ev = Inr resp" "status_code resp = 200" "bind_exc (json resp) weather_data = Inr wd"
        "cache_set_error ev = Some e" "tres = Inl e" "store' = store" "cache_writes tcalls = [CacheSet key wd 1800]"
      then show ?thesis
        using tried(1) by (simp add: w tried(4))
    next
      fix resp wd
      assume "upstream ev = Inr resp" "status_code resp = 200" "bind_exc (json resp) weather_data = Inr wd"
        "cache_set_error ev = None" "tres = Inr \<lparr>data = wd, status = 200\<rparr>"
        "store' = store(key \<mapsto> (wd, now + upstream_seconds ev + 1800))"
        "cache_writes tcalls = [CacheSet key wd 1800]"
      then show ?thesis
        using tried(1) by (simp add: w tried(4) is_ok_def)
    qed
  qed
qed

section \<open>Cache writes\<close>

lemma forecast_write_discipline:
  assumes "ForecastWeatherView_get cfg ev now store req = (res, store', calls)"
    and "key = forecast_cache_key (strip (qd_get (query_params req) ''city'' []))"
  shows "(\<not> is_ok res \<longrightarrow> store' = store \<and> (cache_writes calls \<noteq> [] \<longrightarrow> cache_set_error ev \<noteq> None))
       \<and> (cache_writes calls = [] \<longrightarrow> store' = store)
       \<and> (cache_writes calls \<noteq> [] \<longrightarrow>
            (\<exists>resp fd. upstream ev = Inr resp \<and> status_code resp = 200
               \<and> bind_exc (json resp) forecast_data = Inr fd
               \<and> cache_writes calls = [CacheSet key fd 1800]
               \<and> (is_ok res \<longrightarrow> res = Inr \<lparr>data = fd, status = 200\<rparr>
                     \<and> store' = store(key \<mapsto> (fd, now + upstream_seconds ev + 1800)))))"
proof -
  define city where "city = strip (qd_get (query_params req) ''city'' [])"
  have key: "key = forecast_cache_key city" using assms(2) by (simp add: city_def)
  note c = forecast_view_cases [OF assms(1) city_def key]
  consider
      (early) "store' = store" "cache_writes calls = []"
    | (tried) tres tcalls where "forecast_try cfg ev now store city key = (tres, store', tcalls)"
        "calls = CacheGet key # tcalls" "res = Inr (case tres of Inl e \<Rightarrow> forecast_except e | Inr r \<Rightarrow> r)"
    using c by (auto simp: cache_writes_def)
  then show ?thesis
  proof cases
    case early
    then show ?thesis by simp
  next
    case tried
    have w: "cache_writes calls = cache_writes tcalls" by (simp add: tried(2) cache_writes_def)
    note t = forecast_try_cases [OF tried(1)]
    from t show ?thesis
    proof (elim disjE exE conjE)
      fix e assume "upstream ev = Inl e" "tres = Inl e" "store' = store" "cache_writes tcalls = []"
      then show ?thesis by (simp add: w)
    next
      fix resp r assume "store' = store" "cache_writes tcalls = []"
      then show ?thesis by (simp add: w)
    next
      fix resp r assume "store' = store" "cache_writes tcalls = []"
      then show ?thesis by (simp add: w)
    next
      fix resp e assume "store' = store" "cache_writes tcalls = []"
      then show ?thesis by (simp add: w)
    next
      fix resp fd e
      assume "upstream ev = Inr resp" "status_code resp = 200" "bind_exc (json resp) forecast_data = Inr fd"
        "cache_set_error ev = Some e" "tres = Inl e" "store' = store" "cache_writes tcalls = [CacheSet key fd 1800]"
      then show ?thesis
        by (simp add: w tried(3) is_ok_def status_forecast_except_not_ok)
    next
      fix resp fd
      assume "upstream ev = Inr resp" "status_code resp = 200" "bind_exc (json resp) forecast_data = Inr fd"
        "cache_set_error ev = None" "tres = Inr \<lparr>data = fd, status = 200\<rparr>"
        "store' = store(key \<mapsto> (fd, now + upstream_seconds ev + 1800))"
        "cache_writes tcalls = [CacheSet key fd 1800]"
      then show ?thesis
        by (simp add: w tried(3) is_ok_def)
    qed
  qed
qed

lemma forecast_error_paths:
  assumes "ForecastWeatherView_get cfg ev now store req = (res, store', calls)"
    and "city = strip (qd_get (query_params req) ''city'' [])"
  shows "((city = [] \<or> (\<exists>e. upstream ev = Inl e)
           \<or> (\<exists>resp. upstream ev = Inr resp
                 \<and> (status_code resp \<noteq> 200 \<or> (\<exists>e. bind_exc (json resp) forecast_data = Inl e))))
          \<longrightarrow> cache_writes calls = [] \<and> store' = store)
       \<and> (\<not> is_ok res \<and> cache_writes calls \<noteq> [] \<longrightarrow>
            (\<exists>e. cache_set_error ev = Some e \<and> res = Inr (forecast_except e)))"
proof -
  define key where "key = forecast_cache_key city"
  note c = forecast_view_cases [OF assms(1) assms(2) key_def]
  consider
      (early) "store' = store" "cache_writes calls = []"
    | (tried) tres tcalls where "city \<noteq> []" "forecast_try cfg ev now store city key = (tres, store', tcalls)"
        "calls = CacheGet key # tcalls" "res = Inr (case tres of Inl e \<Rightarrow> forecast_except e | Inr r \<Rightarrow> r)"
    using c by (auto simp: cache_writes_def)
  then show ?thesis
  proof cases
    case early
    then show ?thesis by simp
  next
    case tried
    have w: "cache_writes calls = cache_writes tcalls" by (simp add: tried(3) cache_writes_def)
    note t = forecast_try_cases [OF tried(2)]
    from t show ?thesis
    proof (elim disjE exE conjE)
      fix e assume "upstream ev = Inl e" "tres = Inl e" "store' = store" "cache_writes tcalls = []"
      then show ?thesis by (simp add: w)
    next
      fix resp r assume "store' = store" "cache_writes tcalls = []"
      then show ?thesis by (simp add: w)
    next
      fix resp r assume "store' = store" "cache_writes tcalls = []"
      then show ?thesis by (simp add: w)
    next
      fix resp e assume "store' = store" "cache_writes tcalls = []"
      then show ?thesis by (simp add: w)
    next
      fix resp wd e
      assume "upstream ev = Inr resp" "status_code resp = 200" "bind_exc (json resp) forecast_data = Inr wd"
        "cache_set_error ev = Some e" "tres = Inl e" "store' = store" "cache_writes tcalls = [CacheSet key wd 1800]"
      then show ?thesis
        using tried(1) by (simp add: w tried(4))
    next
      fix resp wd
      assume "upstream ev = Inr resp" "status_code resp = 200" "bind_exc (json resp) forecast_data = Inr wd"
        "cache_set_error ev = None" "tres = Inr \<lparr>data = wd, status = 200\<rparr>"
        "store' = store(key \<mapsto> (wd, now + upstream_seconds ev + 1800))"
        "cache_writes tcalls = [CacheSet key wd 1800]"
      then show ?thesis
        using tried(1) by (simp add: w tried(4) is_ok_def)
    qed
  qed
qed

lemma forecast_data_london: "forecast_data london_body = Inl KeyError"
  by (simp add: forecast_data_def london_body_def bind_exc_def)

lemma current_get_london:
  "CurrentWeatherView_get example_settings
     (working_cache_env (Inr \<lparr>status_code = 200, json = Inr london_body\<rparr>)) 100 Map.empty (city_request ''London'')
   = (Inr \<lparr>data = london_payload, status = 200\<rparr>,
      [''weather_current_london'' \<mapsto> (london_payload, 1902)],
      [CacheGet ''weather_current_london'',
       HttpGet ''https://api.example.org/data/2.5/weather''
         [(''q'', PStr ''London''), (''appid'', PStr ''secret''), (''units'', PStr ''metric'')] 10,
       CacheSet ''weather_current_london'' london_payload 1800])"
  by (simp add: CurrentWeatherView_get_def current_try_def cache_get_def cache_set_def working_cache_env_def
      example_settings_def city_request_def qd_get_def strip_London lower_London current_cache_key_def
      bind_exc_def weather_data_london Let_def)

lemma forecast_get_london_body:
  "ForecastWeatherView_get example_settings
     (working_cache_env (Inr \<lparr>status_code = 200, json = Inr london_body\<rparr>)) 100 Map.empty (city_request ''London'')
   = (Inr \<lparr>data = PDict [(''success'', PBool False), (''message'', PStr ''An unexpected error occurred'')],
           status = 500\<rparr>,
      Map.empty,
      [CacheGet ''weather_forecast_london'',
       HttpGet ''https://api.example.org/data/2.5/forecast''
         [(''q'', PStr ''London''), (''appid'', PStr ''secret''), (''units'', PStr ''metric''), (''cnt'', PInt 40)] 10])"
  by (simp add: ForecastWeatherView_get_def forecast_try_def forecast_except_def cache_get_def working_cache_env_def
      example_settings_def city_request_def qd_get_def strip_London lower_London forecast_cache_key_def
      bind_exc_def forecast_data_london failure_def Let_def)

lemma current_get_london_failing_write:
  "CurrentWeatherView_get example_settings (failing_write_env (Inr \<lparr>status_code = 200, json = Inr london_body\<rparr>)) 100 Map.empty (city_request ''London'')
   = (Inr \<lparr>data = PDict [(''success'', PBool False), (''message'', PStr ''An unexpected error occurred'')],
           status = 500\<rparr>,
      Map.empty,
      [CacheGet ''weather_current_london'',
       HttpGet ''https://api.example.org/data/2.5/weather''
         [(''q'', PStr ''London''), (''appid'', PStr ''secret''), (''units'', PStr ''metric'')] 10,
       CacheSet ''weather_current_london'' london_payload 1800])"
  by (simp add: CurrentWeatherView_get_def current_try_def current_except_def cache_get_def cache_set_def
      failing_write_env_def example_settings_def city_request_def qd_get_def strip_London lower_London
      current_cache_key_def bind_exc_def weather_data_london failure_def Let_def)

lemma forecast_get_london_body_failing_write:
  "ForecastWeatherView_get example_settings (failing_write_env (Inr \<lparr>status_code = 200, json = Inr london_body\<rparr>)) 100 Map.empty (city_request ''London'')
   = (Inr \<lparr>data = PDict [(''success'', PBool False), (''message'', PStr ''An unexpected error occurred'')],
           status = 500\<rparr>,
      Map.empty,
      [CacheGet ''weather_forecast_london'',
       HttpGet ''https://api.example.org/data/2.5/forecast''
         [(''q'', PStr ''London''), (''appid'', PStr ''secret''), (''units'', PStr ''metric''), (''cnt'', PInt 40)] 10])"
  by (simp add: ForecastWeatherView_get_def forecast_try_def forecast_except_def cache_get_def failing_write_env_def
      example_settings_def city_request_def qd_get_def strip_London lower_London forecast_cache_key_def
      bind_exc_def forecast_data_london failure_def Let_def)

text \<open>
  Claim C3, as the specification states it, fails: when the upstream answers London with
  status 200 and \<open>cache.set\<close> raises, the current view has issued the cache write, with
  the normalized payload, and then answers \<open>An unexpected error occurred\<close> with status
  500: an error outcome with a cache write.
\<close>

theorem cache_set_failure_is_answered_500_after_the_write_counterexample:
  "CurrentWeatherView_get example_settings (failing_write_env (Inr \<lparr>status_code = 200, json = Inr london_body\<rparr>)) 100 Map.empty (city_request ''London'')
   = (Inr \<lparr>data = PDict [(''success'', PBool False), (''message'', PStr ''An unexpected error occurred'')],
           status = 500\<rparr>,
      Map.empty,
      [CacheGet ''weather_current_london'',
       HttpGet ''https://api.example.org/data/2.5/weather''
         [(''q'', PStr ''London''), (''appid'', PStr ''secret''), (''units'', PStr ''metric'')] 10,
       CacheSet ''weather_current_london'' london_payload 1800])
   \<and> \<not> is_ok (Inr \<lparr>data = PDict [(''success'', PBool False), (''message'', PStr ''An unexpected error occurred'')],
           status = 500\<rparr>)
   \<and> cache_writes
      [CacheGet ''weather_current_london'',
       HttpGet ''https://api.example.org/data/2.5/weather''
         [(''q'', PStr ''London''), (''appid'', PStr ''secret''), (''units'', PStr ''metric'')] 10,
       CacheSet ''weather_current_london'' london_payload 1800]
     = [CacheSet ''weather_current_london'' london_payload 1800]"
  by (simp add: current_get_london_failing_write is_ok_def cache_writes_def)

text \<open>
  Claim C3, amended. For both views: on every error path that ends before the cache
  write (a validation failure, a timeout or network failure or other exception of the
  upstream request, an upstream 404 or other non-200 status, an exception raised while
  the body is decoded or normalized) no \<open>cache.set\<close> is issued and the store is left as
  it was, as it is by every call that issues no \<open>cache.set\<close>; a call issues \<open>cache.set\<close>
  only after the upstream answered with status 200 and the body was normalized, once,
  under the view's key for the city, with the normalized payload and a timeout of 1800
  seconds; when the call then succeeds it returns that payload and the store holds it
  until 1800 seconds after the write; and the only error outcome after an issued
  \<open>cache.set\<close> is the one in which \<open>cache.set\<close> itself raised, answered by the view's
  handler for that exception.
\<close>

theorem cache_is_written_only_after_upstream_success:
  assumes "CurrentWeatherView_get cfg ev now store req = (res, store', calls)"
    and "ForecastWeatherView_get cfg ev now store req = (fres, fstore', fcalls)"
    and "city = strip (qd_get (query_params req) ''city'' [])"
  shows "((city = [] \<or> (\<exists>e. upstream ev = Inl e)
           \<or> (\<exists>resp. upstream ev = Inr resp
                 \<and> (status_code resp \<noteq> 200 \<or> (\<exists>e. bind_exc (json resp) weather_data = Inl e))))
          \<longrightarrow> cache_writes calls = [] \<and> store' = store)
       \<and> (cache_writes calls = [] \<longrightarrow> store' = store)
       \<and> (cache_writes calls \<noteq> [] \<longrightarrow>
            (\<exists>resp wd. upstream ev = Inr resp \<and> status_code resp = 200
               \<and> bind_exc (json resp) weather_data = Inr wd
               \<and> cache_writes calls = [CacheSet (current_cache_key city) wd 1800]
               \<and> (is_ok res \<longrightarrow> res = Inr \<lparr>data = wd, status = 200\<rparr>
                     \<and> store' = store(current_cache_key city \<mapsto> (wd, now + upstream_seconds ev + 1800)))
               \<and> (\<not> is_ok res \<longrightarrow> (\<exists>e. cache_set_error ev = Some e \<and> res = Inr (current_except e)))))
       \<and> ((city = [] \<or> (\<exists>e. upstream ev = Inl e)
           \<or> (\<exists>resp. upstream ev = Inr resp
                 \<and> (status_code resp \<noteq> 200 \<or> (\<exists>e. bind_exc (json resp) forecast_data = Inl e))))
          \<longrightarrow> cache_writes fcalls = [] \<and> fstore' = store)
       \<and> (cache_writes fcalls = [] \<longrightarrow> fstore' = store)
       \<and> (cache_writes fcalls \<noteq> [] \<longrightarrow>
            (\<exists>resp fd. upstream ev = Inr resp \<and> status_code resp = 200
               \<and> bind_exc (json resp) forecast_data = Inr fd
               \<and> cache_writes fcalls = [CacheSet (forecast_cache_key city) fd 1800]
               \<and> (is_ok fres \<longrightarrow> fres = Inr \<lparr>data = fd, status = 200\<rparr>
                     \<and> fstore' = store(forecast_cache_key city \<mapsto> (fd, now + upstream_seconds ev + 1800)))
               \<and> (\<not> is_ok fres \<longrightarrow> (\<exists>e. cache_set_error ev = Some e \<and> fres = Inr (forecast_except e)))))"
proof -
  have k: "current_cache_key city = current_cache_key (strip (qd_get (query_params req) ''city'' []))"
    by (simp add: assms(3))
  have fk: "forecast_cache_key city = forecast_cache_key (strip (qd_get (query_params req) ''city'' []))"
    by (simp add: assms(3))
  note c = current_write_discipline [OF assms(1) k]
  note ce = current_error_paths [OF assms(1) assms(3)]
  note f = forecast_write_discipline [OF assms(2) fk]
  note fe = forecast_error_paths [OF assms(2) assms(3)]
  have c1: "(city = [] \<or> (\<exists>e. upstream ev = Inl e)
           \<or> (\<exists>resp. upstream ev = Inr resp
                 \<and> (status_code resp \<noteq> 200 \<or> (\<exists>e. bind_exc (json resp) weather_data = Inl e))))
          \<longrightarrow> cache_writes calls = [] \<and> store' = store"
    using ce by (rule conjunct1)
  have c2: "cache_writes calls = [] \<longrightarrow> store' = store"
    using c by blast
  have c3: "cache_writes calls \<noteq> [] \<longrightarrow>
            (\<exists>resp wd. upstream ev = Inr resp \<and> status_code resp = 200
               \<and> bind_exc (json resp) weather_data = Inr wd
               \<and> cache_writes calls = [CacheSet (current_cache_key city) wd 1800]
               \<and> (is_ok res \<longrightarrow> res = Inr \<lparr>data = wd, status = 200\<rparr>
                     \<and> store' = store(current_cache_key city \<mapsto> (wd, now + upstream_seconds ev + 1800)))
               \<and> (\<not> is_ok res \<longrightarrow> (\<exists>e. cache_set_error ev = Some e \<and> res = Inr (current_except e))))"
    using c ce by blast
  have f1: "(city = [] \<or> (\<exists>e. upstream ev = Inl e)
           \<or> (\<exists>resp. upstream ev = Inr resp
                 \<and> (status_code resp \<noteq> 200 \<or> (\<exists>e. bind_exc (json resp) forecast_data = Inl e))))
          \<longrightarrow> cache_writes fcalls = [] \<and> fstore' = store"
    using fe by (rule conjunct1)
  have f2: "cache_writes fcalls = [] \<longrightarrow> fstore' = store"
    using f by blast
  have f3: "cache_writes fcalls \<noteq> [] \<longrightarrow>
            (\<exists>resp fd. upstream ev = Inr resp \<and> status_code resp = 200
               \<and> bind_exc (json resp) forecast_data = Inr fd
               \<and> cache_writes fcalls = [CacheSet (forecast_cache_key city) fd 1800]
               \<and> (is_ok fres \<longrightarrow> fres = Inr \<lparr>data = fd, status = 200\<rparr>
                     \<and> fstore' = store(forecast_cache_key city \<mapsto> (fd, now + upstream_seconds ev + 1800)))
               \<and> (\<not> is_ok fres \<longrightarrow> (\<exists>e. cache_set_error ev = Some e \<and> fres = Inr (forecast_except e))))"
    using f fe by blast
  show ?thesis
    using c1 c2 c3 f1 f2 f3 by (intro conjI)
qed

theorem cache_is_written_only_after_upstream_success_witness:
  "CurrentWeatherView_get example_settings
     (working_cache_env (Inr \<lparr>status_code = 200, json = Inr london_body\<rparr>)) 100 Map.empty (city_request ''London'')
   = (Inr \<lparr>data = london_payload, status = 200\<rparr>,
      [''weather_current_london'' \<mapsto> (london_payload, 1902)],
      [CacheGet ''weather_current_london'',
       HttpGet ''https://api.example.org/data/2.5/weather''
         [(''q'', PStr ''London''), (''appid'', PStr ''secret''), (''units'', PStr ''metric'')] 10,
       CacheSet ''weather_current_london'' london_payload 1800])
   \<and> ForecastWeatherView_get example_settings
     (working_cache_env (Inr \<lparr>status_code = 200, json = Inr london_body\<rparr>)) 100 Map.empty (city_request ''London'')
   = (Inr \<lparr>data = PDict [(''success'', PBool False), (''message'', PStr ''An unexpected error occurred'')],
           status = 500\<rparr>,
      Map.empty,
      [CacheGet ''weather_forecast_london'',
       HttpGet ''https://api.example.org/data/2.5/forecast''
         [(''q'', PStr ''London''), (''appid'', PStr ''secret''), (''units'', PStr ''metric''), (''cnt'', PInt 40)] 10])
   \<and> CurrentWeatherView_get example_settings (failing_write_env (Inr \<lparr>status_code = 200, json = Inr london_body\<rparr>)) 100 Map.empty (city_request ''London'')
   = (Inr \<lparr>data = PDict [(''success'', PBool False), (''message'', PStr ''An unexpected error occurred'')],
           status = 500\<rparr>,
      Map.empty,
      [CacheGet ''weather_current_london'',
       HttpGet ''https://api.example.org/data/2.5/weather''
         [(''q'', PStr ''London''), (''appid'', PStr ''secret''), (''units'', PStr ''metric'')] 10,
       CacheSet ''weather_current_london'' london_payload 1800])
   \<and> ''London'' = strip (qd_get (query_params (city_request ''London'')) ''city'' [])
   \<and> bind_exc (json \<lparr>status_code = 200, json = Inr london_body\<rparr>) forecast_data = Inl KeyError
   \<and> (\<exists>resp wd. upstream (working_cache_env (Inr \<lparr>status_code = 200, json = Inr london_body\<rparr>)) = Inr resp
         \<and> status_code resp = 200 \<and> bind_exc (json resp) weather_data = Inr wd
         \<and> cache_writes
              [CacheGet ''weather_current_london'',
       HttpGet ''https://api.example.org/data/2.5/weather''
         [(''q'', PStr ''London''), (''appid'', PStr ''secret''), (''units'', PStr ''metric'')] 10,
       CacheSet ''weather_current_london'' london_payload 1800]
             = [CacheSet (current_cache_key ''London'') wd 1800])
   \<and> cache_writes
         [CacheGet ''weather_forecast_london'',
       HttpGet ''https://api.example.org/data/2.5/forecast''
         [(''q'', PStr ''London''), (''appid'', PStr ''secret''), (''units'', PStr ''metric''), (''cnt'', PInt 40)] 10]
       = []
   \<and> (\<exists>e. cache_set_error (failing_write_env (Inr \<lparr>status_code = 200, json = Inr london_body\<rparr>)) = Some e
         \<and> (Inr \<lparr>data = PDict [(''success'', PBool False), (''message'', PStr ''An unexpected error occurred'')],
           status = 500\<rparr> :: py_exception + response) = Inr (current_except e))"
proof -
  have c: "''London'' = strip (qd_get (query_params (city_request ''London'')) ''city'' [])"
    by (simp add: city_request_def qd_get_def strip_London)
  have w: "cache_writes
              [CacheGet ''weather_current_london'',
       HttpGet ''https://api.example.org/data/2.5/weather''
         [(''q'', PStr ''London''), (''appid'', PStr ''secret''), (''units'', PStr ''metric'')] 10,
       CacheSet ''weather_current_london'' london_payload 1800] \<noteq> []"
    by (simp add: cache_writes_def)
  have n: "bind_exc (json \<lparr>status_code = 200, json = Inr london_body\<rparr>) forecast_data = Inl KeyError"
    by (simp add: bind_exc_def forecast_data_london)
  have u: "upstream (working_cache_env (Inr \<lparr>status_code = 200, json = Inr london_body\<rparr>)) = Inr \<lparr>status_code = 200, json = Inr london_body\<rparr>"
    by (simp add: working_cache_env_def)
  have e: "\<not> is_ok (Inr \<lparr>data = PDict [(''success'', PBool False), (''message'', PStr ''An unexpected error occurred'')],
           status = 500\<rparr>)"
    by (simp add: is_ok_def)
  note t = cache_is_written_only_after_upstream_success [OF current_get_london forecast_get_london_body c]
  note t2 = cache_is_written_only_after_upstream_success
    [OF current_get_london_failing_write forecast_get_london_body_failing_write c]
  from t w have a: "\<exists>resp wd. upstream (working_cache_env (Inr \<lparr>status_code = 200, json = Inr london_body\<rparr>)) = Inr resp
         \<and> status_code resp = 200 \<and> bind_exc (json resp) weather_data = Inr wd
         \<and> cache_writes
              [CacheGet ''weather_current_london'',
       HttpGet ''https://api.example.org/data/2.5/weather''
         [(''q'', PStr ''London''), (''appid'', PStr ''secret''), (''units'', PStr ''metric'')] 10,
       CacheSet ''weather_current_london'' london_payload 1800]
             = [CacheSet (current_cache_key ''London'') wd 1800]"
    by blast
  from t n u have b: "cache_writes
         [CacheGet ''weather_forecast_london'',
       HttpGet ''https://api.example.org/data/2.5/forecast''
         [(''q'', PStr ''London''), (''appid'', PStr ''secret''), (''units'', PStr ''metric''), (''cnt'', PInt 40)] 10]
       = []"
    by blast
  from t2 w e have d: "\<exists>e. cache_set_error (failing_write_env (Inr \<lparr>status_code = 200, json = Inr london_body\<rparr>)) = Some e
         \<and> (Inr \<lparr>data = PDict [(''success'', PBool False), (''message'', PStr ''An unexpected error occurred'')],
           status = 500\<rparr> :: py_exception + response) = Inr (current_except e)"
    by blast
  show ?thesis
    using current_get_london forecast_get_london_body current_get_london_failing_write c n a b d
    by (intro conjI)
qed

lemma py_dict_head: "py_dict ((k, Inr v) # fs) = Inr wd \<Longrightarrow> \<exists>d. wd = PDict ((k, v) # d)"
  by (auto simp: py_dict_def split: sum.splits)


lemma forecast_data_truthy: "forecast_data d = Inr fd \<Longrightarrow> truthy fd"
  unfolding forecast_data_def bind_exc_def
  by (auto split: sum.splits dest!: py_dict_head)


section \<open>Repeated calls\<close>





section \<open>Exceptions that leave a view\<close>

text \<open>
  Claim C9. With a cache backend that raises on a read, a call for London does not
  return a response: the exception of \<open>cache.get\<close>, which is called before the \<open>try\<close>
  block, leaves both views.
\<close>

theorem cache_read_failure_leaves_the_view:
  "CurrentWeatherView_get example_settings
       (failing_cache_env (Inr \<lparr>status_code = 200, json = Inr london_body\<rparr>)) 0 Map.empty (city_request ''London'') =
     (Inl OtherException, Map.empty, [CacheGet ''weather_current_london''])
   \<and> ForecastWeatherView_get example_settings
       (failing_cache_env (Inr \<lparr>status_code = 200, json = Inr paris_body\<rparr>)) 0 Map.empty (city_request ''London'') =
     (Inl OtherException, Map.empty, [CacheGet ''weather_forecast_london''])"
  by (simp add: ForecastWeatherView_get_def CurrentWeatherView_get_def cache_get_def failing_cache_env_def
      city_request_def qd_get_def strip_London lower_London forecast_cache_key_def current_cache_key_def)

text \<open>
  When the cache can be read, every call of a view returns a response, with a status
  of the taxonomy; an exception raised in the \<open>try\<close> block that no earlier clause
  handles is answered with status 500.
\<close>

lemma status_failure: "status (failure msg code) = code"
  by (simp add: failure_def)

lemma current_try_status:
  assumes "current_try cfg ev now store city key = (tres, store', tcalls)"
  shows "status (case tres of Inl e \<Rightarrow> current_except e | Inr r \<Rightarrow> r) \<in> {200, 400, 404, 408, 500, 503}"
proof (cases tres)
  case (Inl e)
  then show ?thesis using status_current_except [of e] by auto
next
  case (Inr r)
  then show ?thesis using current_try_cases [OF assms] by auto
qed

lemma forecast_try_status:
  assumes "forecast_try cfg ev now store city key = (tres, store', tcalls)"
  shows "status (case tres of Inl e \<Rightarrow> forecast_except e | Inr r \<Rightarrow> r) \<in> {200, 400, 404, 408, 500}"
proof (cases tres)
  case (Inl e)
  then show ?thesis using status_forecast_except [of e] by auto
next
  case (Inr r)
  then show ?thesis using forecast_try_cases [OF assms] by auto
qed

lemma views_answer_when_the_cache_can_be_read:
  assumes "cache_get_error ev = None"
  shows "(\<exists>r. fst (CurrentWeatherView_get cfg ev now store req) = Inr r \<and> status r \<in> {200, 400, 404, 408, 500, 503})
       \<and> (\<exists>r. fst (ForecastWeatherView_get cfg ev now store req) = Inr r \<and> status r \<in> {200, 400, 404, 408, 500})"
proof -
  obtain res store' calls where c: "CurrentWeatherView_get cfg ev now store req = (res, store', calls)"
    by (cases "CurrentWeatherView_get cfg ev now store req")
  obtain fres fstore' fcalls where f: "ForecastWeatherView_get cfg ev now store req = (fres, fstore', fcalls)"
    by (cases "ForecastWeatherView_get cfg ev now store req")
  have g: "cache_get ev now store key \<noteq> Inl e" for e key
    using assms by (simp add: cache_get_def split: option.splits)
  have "\<exists>r. res = Inr r \<and> status r \<in> {200, 400, 404, 408, 500, 503}"
    using current_view_cases [OF c refl refl]
  proof (elim disjE conjE exE)
    fix v tres tcalls
    assume t: "current_try cfg ev now store (strip (qd_get (query_params req) ''city'' []))
                 (current_cache_key (strip (qd_get (query_params req) ''city'' []))) = (tres, store', tcalls)"
      and res: "res = Inr (case tres of Inl e \<Rightarrow> current_except e | Inr r \<Rightarrow> r)"
    show ?thesis
      using current_try_status [OF t] by (simp add: res)
  qed (auto simp: status_failure g)
  moreover have "\<exists>r. fres = Inr r \<and> status r \<in> {200, 400, 404, 408, 500}"
    using forecast_view_cases [OF f refl refl]
  proof (elim disjE conjE exE)
    fix v tres tcalls
    assume t: "forecast_try cfg ev now store (strip (qd_get (query_params req) ''city'' []))
                 (forecast_cache_key (strip (qd_get (query_params req) ''city'' []))) = (tres, fstore', tcalls)"
      and res: "fres = Inr (case tres of Inl e \<Rightarrow> forecast_except e | Inr r \<Rightarrow> r)"
    show ?thesis
      using forecast_try_status [OF t] by (simp add: res)
  qed (auto simp: status_failure g)
  ultimately show ?thesis by (simp add: c f)
qed

lemma unhandled_exception_is_answered_500:
  "\<not> isinstance_RequestException e \<Longrightarrow>
     current_except e = failure ''An unexpected error occurred'' 500
     \<and> forecast_except e = failure ''An unexpected error occurred'' 500"
  by (cases e) (simp_all add: current_except_def forecast_except_def)

lemma weather_data_empty: "weather_data (PDict []) = Inl KeyError"
  by (simp add: weather_data_def py_dict_def)

lemma missing_field_is_answered_500:
  "fst (CurrentWeatherView_get example_settings
       (working_cache_env (Inr \<lparr>status_code = 200, json = Inr (PDict [])\<rparr>)) 0 Map.empty (city_request ''London'')) =
     Inr \<lparr>data = PDict [(''success'', PBool False), (''message'', PStr ''An unexpected error occurred'')],
          status = 500\<rparr>"
  by (simp add: CurrentWeatherView_get_def current_try_def current_except_def cache_get_def working_cache_env_def
      example_settings_def city_request_def qd_get_def strip_London lower_London current_cache_key_def
      bind_exc_def weather_data_empty failure_def Let_def)

section \<open>The shape of the normalized payloads\<close>

lemma build_dict_Inr: "build_dict fs = Inr d \<Longrightarrow> fs = map (\<lambda>kv. (fst kv, Inr (snd kv))) d"
  by (induction fs arbitrary: d) (auto split: sum.splits)

lemma py_dict_Inr:
  assumes "py_dict fs = Inr e"
  obtains d where "e = PDict d" and "fs = map (\<lambda>kv. (fst kv, Inr (snd kv))) d"
  using assms build_dict_Inr by (auto simp: py_dict_def split: sum.splits)

lemma forecast_entry_Inr:
  assumes "forecast_entry item = Inr e"
  obtains v1 v2 v3 v4 v5 v6 v7 v8 v9 v10 v11 v12 v13 v14 where
    "e = PDict [(''datetime'', v1), (''date_text'', v2), (''temperature'', v3), (''feels_like'', v4),
                (''temp_min'', v5), (''temp_max'', v6), (''humidity'', v7), (''pressure'', v8),
                (''description'', v9), (''main'', v10), (''icon'', v11), (''wind_speed'', v12),
                (''clouds'', v13), (''pop'', v14)]"
    and "getitem item ''dt'' = Inr v1"
    and "getitem item ''dt_txt'' = Inr v2"
    and "bind_exc (getitem2 item ''main'' ''temp'') py_round = Inr v3"
    and "bind_exc (getitem2 item ''main'' ''feels_like'') py_round = Inr v4"
    and "bind_exc (getitem2 item ''main'' ''temp_min'') py_round = Inr v5"
    and "bind_exc (getitem2 item ''main'' ''temp_max'') py_round = Inr v6"
    and "getitem2 item ''main'' ''humidity'' = Inr v7"
    and "getitem2 item ''main'' ''pressure'' = Inr v8"
    and "bind_exc (bind_exc (bind_exc (getitem item ''weather'') getitem0) (\<lambda>w. getitem w ''description'')) py_title = Inr v9"
    and "bind_exc (bind_exc (getitem item ''weather'') getitem0) (\<lambda>w. getitem w ''main'') = Inr v10"
    and "bind_exc (bind_exc (getitem item ''weather'') getitem0) (\<lambda>w. getitem w ''icon'') = Inr v11"
    and "bind_exc (getitem2 item ''wind'' ''speed'') py_round1 = Inr v12"
    and "getitem2 item ''clouds'' ''all'' = Inr v13"
    and "bind_exc (dict_get item ''pop'' (PInt 0)) py_mul_100 = Inr v14"
proof -
  from assms obtain d where e: "e = PDict d"
    and d: "[(''datetime'', getitem item ''dt''),
      (''date_text'', getitem item ''dt_txt''),
      (''temperature'', bind_exc (getitem2 item ''main'' ''temp'') py_round),
      (''feels_like'', bind_exc (getitem2 item ''main'' ''feels_like'') py_round),
      (''temp_min'', bind_exc (getitem2 item ''main'' ''temp_min'') py_round),
      (''temp_max'', bind_exc (getitem2 item ''main'' ''temp_max'') py_round),
      (''humidity'', getitem2 item ''main'' ''humidity''),
      (''pressure'', getitem2 item ''main'' ''pressure''),
      (''description'',
         bind_exc (bind_exc (bind_exc (getitem item ''weather'') getitem0) (\<lambda>w. getitem w ''description'')) py_title),
      (''main'', bind_exc (bind_exc (getitem item ''weather'') getitem0) (\<lambda>w. getitem w ''main'')),
      (''icon'', bind_exc (bind_exc (getitem item ''weather'') getitem0) (\<lambda>w. getitem w ''icon'')),
      (''wind_speed'', bind_exc (getitem2 item ''wind'' ''speed'') py_round1),
      (''clouds'', getitem2 item ''clouds'' ''all''),
      (''pop'', bind_exc (dict_get item ''pop'' (PInt 0)) py_mul_100)] = map (\<lambda>kv. (fst kv, Inr (snd kv))) d"
    unfolding forecast_entry_def by (rule py_dict_Inr)
  from d show ?thesis
    by (auto simp: Cons_eq_map_conv e intro!: that)
qed

lemma weather_data_Inr:
  assumes "weather_data d = Inr wd"
  obtains w1 w2 w3 w4 w5 w6 w7 w8 w9 w10 w11 w12 w13 w14 w15 w16 w17 w18 w19 w20 w21 where
    "wd = PDict [(''success'', w1),
                 (''city'', w2),
                 (''country'', w3),
                 (''coordinates'', w4),
                 (''temperature'', w5),
                 (''feels_like'', w6),
                 (''temp_min'', w7),
                 (''temp_max'', w8),
                 (''humidity'', w9),
                 (''pressure'', w10),
                 (''description'', w11),
                 (''main'', w12),
                 (''icon'', w13),
                 (''wind_speed'', w14),
                 (''wind_deg'', w15),
                 (''clouds'', w16),
                 (''visibility'', w17),
                 (''sunrise'', w18),
                 (''sunset'', w19),
                 (''timezone'', w20),
                 (''timestamp'', w21)]"
    and "w1 = PBool True"
    and "getitem d ''name'' = Inr w2"
    and "getitem2 d ''sys'' ''country'' = Inr w3"
    and "py_dict
         [(''lat'', getitem2 d ''coord'' ''lat''),
          (''lon'', getitem2 d ''coord'' ''lon'')] = Inr w4"
    and "bind_exc (getitem2 d ''main'' ''temp'') py_round = Inr w5"
    and "bind_exc (getitem2 d ''main'' ''feels_like'') py_round = Inr w6"
    and "bind_exc (getitem2 d ''main'' ''temp_min'') py_round = Inr w7"
    and "bind_exc (getitem2 d ''main'' ''temp_max'') py_round = Inr w8"
    and "getitem2 d ''main'' ''humidity'' = Inr w9"
    and "getitem2 d ''main'' ''pressure'' = Inr w10"
    and "bind_exc (bind_exc (bind_exc (getitem d ''weather'') getitem0) (\<lambda>w. getitem w ''description'')) py_title = Inr w11"
    and "bind_exc (bind_exc (getitem d ''weather'') getitem0) (\<lambda>w. getitem w ''main'') = Inr w12"
    and "bind_exc (bind_exc (getitem d ''weather'') getitem0) (\<lambda>w. getitem w ''icon'') = Inr w13"
    and "bind_exc (getitem2 d ''wind'' ''speed'') py_round1 = Inr w14"
    and "bind_exc (getitem d ''wind'') (\<lambda>w. dict_get w ''deg'' (PInt 0)) = Inr w15"
    and "getitem2 d ''clouds'' ''all'' = Inr w16"
    and "dict_get d ''visibility'' (PInt 0) = Inr w17"
    and "getitem2 d ''sys'' ''sunrise'' = Inr w18"
    and "getitem2 d ''sys'' ''sunset'' = Inr w19"
    and "getitem d ''timezone'' = Inr w20"
    and "getitem d ''dt'' = Inr w21"
proof -
  from assms obtain fs where e: "wd = PDict fs"
    and d: "[(''success'', Inr (PBool True)),
      (''city'', getitem d ''name''),
      (''country'', getitem2 d ''sys'' ''country''),
      (''coordinates'', py_dict
         [(''lat'', getitem2 d ''coord'' ''lat''),
          (''lon'', getitem2 d ''coord'' ''lon'')]),
      (''temperature'', bind_exc (getitem2 d ''main'' ''temp'') py_round),
      (''feels_like'', bind_exc (getitem2 d ''main'' ''feels_like'') py_round),
      (''temp_min'', bind_exc (getitem2 d ''main'' ''temp_min'') py_round),
      (''temp_max'', bind_exc (getitem2 d ''main'' ''temp_max'') py_round),
      (''humidity'', getitem2 d ''main'' ''humidity''),
      (''pressure'', getitem2 d ''main'' ''pressure''),
      (''description'', bind_exc (bind_exc (bind_exc (getitem d ''weather'') getitem0) (\<lambda>w. getitem w ''description'')) py_title),
      (''main'', bind_exc (bind_exc (getitem d ''weather'') getitem0) (\<lambda>w. getitem w ''main'')),
      (''icon'', bind_exc (bind_exc (getitem d ''weather'') getitem0) (\<lambda>w. getitem w ''icon'')),
      (''wind_speed'', bind_exc (getitem2 d ''wind'' ''speed'') py_round1),
      (''wind_deg'', bind_exc (getitem d ''wind'') (\<lambda>w. dict_get w ''deg'' (PInt 0))),
      (''clouds'', getitem2 d ''clouds'' ''all''),
      (''visibility'', dict_get d ''visibility'' (PInt 0)),
      (''sunrise'', getitem2 d ''sys'' ''sunrise''),
      (''sunset'', getitem2 d ''sys'' ''sunset''),
      (''timezone'', getitem d ''timezone''),
      (''timestamp'', getitem d ''dt'')] = map (\<lambda>kv. (fst kv, Inr (snd kv))) fs"
    unfolding weather_data_def by (rule py_dict_Inr)
  from d show ?thesis
    by (auto simp: Cons_eq_map_conv e intro!: that)
qed

section \<open>The fields of a forecast entry\<close>

text \<open>
  Claim C2, as the specification states it, fails: an upstream item with \<open>wind.deg\<close> and
  \<open>visibility\<close> is normalized to an entry that has neither a \<open>wind_deg\<close> nor a
  \<open>visibility\<close> field, and an item without them gets no defaulted field either.
\<close>

theorem forecast_entry_has_no_wind_deg_counterexample:
  "forecast_entry forecast_item_1 = Inr forecast_entry_1
   \<and> getitem2 forecast_item_1 ''wind'' ''deg'' = Inr (PInt 270)
   \<and> getitem forecast_item_1 ''visibility'' = Inr (PInt 10000)
   \<and> getitem forecast_entry_1 ''wind_deg'' = Inl KeyError
   \<and> getitem forecast_entry_1 ''visibility'' = Inl KeyError
   \<and> forecast_entry forecast_item_2 = Inr forecast_entry_2
   \<and> getitem forecast_entry_2 ''wind_deg'' = Inl KeyError
   \<and> getitem forecast_entry_2 ''visibility'' = Inl KeyError"
  by (simp add: forecast_entry_item_1 forecast_entry_item_2)
     (simp add: forecast_item_1_def forecast_entry_1_def forecast_entry_2_def getitem2_def bind_exc_def)

text \<open>
  Claim C2, amended. Every normalized forecast entry is a dict with exactly the keys
  \<open>datetime\<close>, \<open>date_text\<close>, \<open>temperature\<close>, \<open>feels_like\<close>, \<open>temp_min\<close>, \<open>temp_max\<close>,
  \<open>humidity\<close>, \<open>pressure\<close>, \<open>description\<close>, \<open>main\<close>, \<open>icon\<close>, \<open>wind_speed\<close>, \<open>clouds\<close> and
  \<open>pop\<close>, in this order; it has no \<open>wind_deg\<close>, \<open>visibility\<close>, \<open>sunrise\<close>, \<open>sunset\<close> or
  \<open>timezone\<close> field; its \<open>datetime\<close> is the item's \<open>dt\<close> and its \<open>date_text\<close> the item's
  \<open>dt_txt\<close>; its \<open>pop\<close> is the upstream \<open>pop\<close>, or 0 when absent, times 100; and each of
  the eleven fields from \<open>temperature\<close> to \<open>clouds\<close> is computed from the item by the rule
  by which the current weather payload computes the field of that name from its
  upstream body, whose \<open>dt\<close> is that payload's \<open>timestamp\<close>.
\<close>

theorem forecast_entry_fields:
  assumes "forecast_entry item = Inr e"
  shows "(\<exists>fs. e = PDict fs \<and> map fst fs = forecast_entry_keys)
       \<and> getitem e ''wind_deg'' = Inl KeyError
       \<and> getitem e ''visibility'' = Inl KeyError
       \<and> getitem e ''sunrise'' = Inl KeyError
       \<and> getitem e ''sunset'' = Inl KeyError
       \<and> getitem e ''timezone'' = Inl KeyError
       \<and> getitem e ''datetime'' = getitem item ''dt''
       \<and> getitem e ''date_text'' = getitem item ''dt_txt''
       \<and> (\<forall>k \<in> set shared_keys. getitem e k = shared_field k item)
       \<and> getitem e ''pop'' = bind_exc (dict_get item ''pop'' (PInt 0)) py_mul_100
       \<and> (\<forall>d wd. weather_data d = Inr wd \<longrightarrow>
             (\<forall>k \<in> set shared_keys. getitem wd k = shared_field k d)
             \<and> getitem wd ''timestamp'' = getitem d ''dt'')"
proof -
  from assms obtain v1 v2 v3 v4 v5 v6 v7 v8 v9 v10 v11 v12 v13 v14 where
    e: "e = PDict [(''datetime'', v1), (''date_text'', v2), (''temperature'', v3), (''feels_like'', v4),
                (''temp_min'', v5), (''temp_max'', v6), (''humidity'', v7), (''pressure'', v8),
                (''description'', v9), (''main'', v10), (''icon'', v11), (''wind_speed'', v12),
                (''clouds'', v13), (''pop'', v14)]"
    and t: "getitem item ''dt'' = Inr v1" "getitem item ''dt_txt'' = Inr v2"
    and f: "bind_exc (getitem2 item ''main'' ''temp'') py_round = Inr v3"
      "bind_exc (getitem2 item ''main'' ''feels_like'') py_round = Inr v4"
      "bind_exc (getitem2 item ''main'' ''temp_min'') py_round = Inr v5"
      "bind_exc (getitem2 item ''main'' ''temp_max'') py_round = Inr v6"
      "getitem2 item ''main'' ''humidity'' = Inr v7"
      "getitem2 item ''main'' ''pressure'' = Inr v8"
      "bind_exc (bind_exc (bind_exc (getitem item ''weather'') getitem0) (\<lambda>w. getitem w ''description'')) py_title = Inr v9"
      "bind_exc (bind_exc (getitem item ''weather'') getitem0) (\<lambda>w. getitem w ''main'') = Inr v10"
      "bind_exc (bind_exc (getitem item ''weather'') getitem0) (\<lambda>w. getitem w ''icon'') = Inr v11"
      "bind_exc (getitem2 item ''wind'' ''speed'') py_round1 = Inr v12"
      "getitem2 item ''clouds'' ''all'' = Inr v13"
    and p: "bind_exc (dict_get item ''pop'' (PInt 0)) py_mul_100 = Inr v14"
    by (rule forecast_entry_Inr)
  have keys: "\<exists>fs. e = PDict fs \<and> map fst fs = forecast_entry_keys"
    by (simp add: e forecast_entry_keys_def)
  have absent: "getitem e ''wind_deg'' = Inl KeyError" "getitem e ''visibility'' = Inl KeyError"
    "getitem e ''sunrise'' = Inl KeyError" "getitem e ''sunset'' = Inl KeyError"
    "getitem e ''timezone'' = Inl KeyError"
    by (simp_all add: e)
  have time: "getitem e ''datetime'' = getitem item ''dt''" "getitem e ''date_text'' = getitem item ''dt_txt''"
    by (simp_all add: e t)
  have shared: "\<forall>k \<in> set shared_keys. getitem e k = shared_field k item"
    by (simp add: e f shared_keys_def shared_field_def)
  have pop: "getitem e ''pop'' = bind_exc (dict_get item ''pop'' (PInt 0)) py_mul_100"
    by (simp add: e p)
  have current: "(\<forall>k \<in> set shared_keys. getitem wd k = shared_field k d)
             \<and> getitem wd ''timestamp'' = getitem d ''dt''"
    if wd: "weather_data d = Inr wd" for d wd
  proof -
    from wd obtain w1 w2 w3 w4 w5 w6 w7 w8 w9 w10 w11 w12 w13 w14 w15 w16 w17 w18 w19 w20 w21 where
      w: "wd = PDict [(''success'', w1), (''city'', w2), (''country'', w3), (''coordinates'', w4),
                 (''temperature'', w5), (''feels_like'', w6), (''temp_min'', w7), (''temp_max'', w8),
                 (''humidity'', w9), (''pressure'', w10), (''description'', w11), (''main'', w12),
                 (''icon'', w13), (''wind_speed'', w14), (''wind_deg'', w15), (''clouds'', w16),
                 (''visibility'', w17), (''sunrise'', w18), (''sunset'', w19), (''timezone'', w20),
                 (''timestamp'', w21)]"
      and g: "bind_exc (getitem2 d ''main'' ''temp'') py_round = Inr w5"
        "bind_exc (getitem2 d ''main'' ''feels_like'') py_round = Inr w6"
        "bind_exc (getitem2 d ''main'' ''temp_min'') py_round = Inr w7"
        "bind_exc (getitem2 d ''main'' ''temp_max'') py_round = Inr w8"
        "getitem2 d ''main'' ''humidity'' = Inr w9"
        "getitem2 d ''main'' ''pressure'' = Inr w10"
        "bind_exc (bind_exc (bind_exc (getitem d ''weather'') getitem0) (\<lambda>w. getitem w ''description'')) py_title = Inr w11"
        "bind_exc (bind_exc (getitem d ''weather'') getitem0) (\<lambda>w. getitem w ''main'') = Inr w12"
        "bind_exc (bind_exc (getitem d ''weather'') getitem0) (\<lambda>w. getitem w ''icon'') = Inr w13"
        "bind_exc (getitem2 d ''wind'' ''speed'') py_round1 = Inr w14"
        "getitem2 d ''clouds'' ''all'' = Inr w16"
        "getitem d ''dt'' = Inr w21"
      by (rule weather_data_Inr)
    show ?thesis by (simp add: w g shared_keys_def shared_field_def)
  qed
  show ?thesis using keys absent time shared pop current by blast
qed

theorem forecast_entry_fields_witness:
  "forecast_entry forecast_item_1 = Inr forecast_entry_1
   \<and> weather_data london_body = Inr london_payload
   \<and> (\<exists>fs. forecast_entry_1 = PDict fs \<and> map fst fs = forecast_entry_keys)
   \<and> getitem forecast_entry_1 ''wind_deg'' = Inl KeyError
   \<and> getitem forecast_entry_1 ''visibility'' = Inl KeyError
   \<and> getitem forecast_entry_1 ''datetime'' = getitem forecast_item_1 ''dt''
   \<and> getitem forecast_entry_1 ''date_text'' = getitem forecast_item_1 ''dt_txt''
   \<and> getitem forecast_entry_1 ''temperature'' = shared_field ''temperature'' forecast_item_1
   \<and> getitem forecast_entry_1 ''wind_speed'' = shared_field ''wind_speed'' forecast_item_1
   \<and> getitem forecast_entry_1 ''description'' = shared_field ''description'' forecast_item_1
   \<and> shared_field ''temperature'' forecast_item_1 = Inr (PInt 16)
   \<and> getitem forecast_entry_1 ''pop'' = Inr (PFloat (Finite 42))
   \<and> getitem london_payload ''temperature'' = shared_field ''temperature'' london_body
   \<and> getitem london_payload ''wind_speed'' = shared_field ''wind_speed'' london_body
   \<and> getitem london_payload ''description'' = shared_field ''description'' london_body
   \<and> getitem london_payload ''timestamp'' = getitem london_body ''dt''"
proof -
  note t = forecast_entry_fields [OF forecast_entry_item_1]
  have k: "''temperature'' \<in> set shared_keys" "''wind_speed'' \<in> set shared_keys"
    "''description'' \<in> set shared_keys"
    by (simp_all add: shared_keys_def)
  have p: "getitem forecast_entry_1 ''pop'' = Inr (PFloat (Finite 42))"
    "getitem forecast_entry_1 ''temperature'' = Inr (PInt 16)"
    by (simp_all add: forecast_entry_1_def)
  have q: "shared_field ''temperature'' forecast_item_1 = Inr (PInt 16)"
    using t k(1) p(2) by simp
  show ?thesis
    using t k p q forecast_entry_item_1 weather_data_london by blast
qed

section \<open>The forecast list\<close>

lemma bind_exc_Inr: "bind_exc m f = Inr y \<Longrightarrow> \<exists>x. m = Inr x \<and> f x = Inr y"
  by (cases m) (simp_all add: bind_exc_def)

lemma forecast_loop_Inr:
  "forecast_loop acc items = Inr res \<Longrightarrow>
     \<exists>es. res = acc @ es \<and> list_all2 (\<lambda>item e. forecast_entry item = Inr e) items es"
proof (induction items arbitrary: acc)
  case Nil
  then show ?case by simp
next
  case (Cons item items)
  then obtain e where e: "forecast_entry item = Inr e"
    and rest: "forecast_loop (acc @ [e]) items = Inr res"
    by (auto split: sum.splits)
  from Cons.IH [OF rest] obtain es where "res = (acc @ [e]) @ es"
    and "list_all2 (\<lambda>item e. forecast_entry item = Inr e) items es"
    by blast
  then have "res = acc @ (e # es) \<and> list_all2 (\<lambda>item e. forecast_entry item = Inr e) (item # items) (e # es)"
    using e by simp
  then show ?case by blast
qed

lemma forecast_data_Inr:
  assumes "forecast_data d = Inr fd"
  shows "\<exists>items es. bind_exc (getitem d ''list'') py_iter = Inr items
           \<and> list_all2 (\<lambda>item e. forecast_entry item = Inr e) items es
           \<and> getitem fd ''forecasts'' = Inr (PList es)"
proof -
  from assms obtain forecasts where
    l: "bind_exc (bind_exc (getitem d ''list'') py_iter) (forecast_loop []) = Inr forecasts"
    and p: "py_dict
          [(''success'', Inr (PBool True)),
           (''city'', getitem2 d ''city'' ''name''),
           (''country'', getitem2 d ''city'' ''country''),
           (''coordinates'', py_dict
              [(''lat'', bind_exc (getitem2 d ''city'' ''coord'') (\<lambda>c. getitem c ''lat'')),
               (''lon'', bind_exc (getitem2 d ''city'' ''coord'') (\<lambda>c. getitem c ''lon''))]),
           (''forecasts'', Inr (PList forecasts))] = Inr fd"
    unfolding forecast_data_def by (blast dest: bind_exc_Inr)
  from l obtain items where i: "bind_exc (getitem d ''list'') py_iter = Inr items"
    and lp: "forecast_loop [] items = Inr forecasts"
    by (blast dest: bind_exc_Inr)
  from forecast_loop_Inr [OF lp] have es: "list_all2 (\<lambda>item e. forecast_entry item = Inr e) items forecasts"
    by simp
  from p obtain fs where fd: "fd = PDict fs"
    and fs: "[(''success'', Inr (PBool True)),
           (''city'', getitem2 d ''city'' ''name''),
           (''country'', getitem2 d ''city'' ''country''),
           (''coordinates'', py_dict
              [(''lat'', bind_exc (getitem2 d ''city'' ''coord'') (\<lambda>c. getitem c ''lat'')),
               (''lon'', bind_exc (getitem2 d ''city'' ''coord'') (\<lambda>c. getitem c ''lon''))]),
           (''forecasts'', Inr (PList forecasts))] = map (\<lambda>kv. (fst kv, Inr (snd kv))) fs"
    by (rule py_dict_Inr)
  from fs have "getitem fd ''forecasts'' = Inr (PList forecasts)"
    by (auto simp: Cons_eq_map_conv fd)
  then show ?thesis using i es by blast
qed

lemma forecast_entry_datetime: "forecast_entry item = Inr e \<Longrightarrow> getitem e ''datetime'' = getitem item ''dt''"
  by (erule forecast_entry_Inr) simp

lemma upstream_calls_simps:
  "upstream_calls [] = []" "upstream_calls [CacheGet key] = []"
  by (simp_all add: upstream_calls_def)

text \<open>
  Claim C8. When the forecast view answers 200 with a payload it built from the upstream
  (it issued an upstream request), the payload's \<open>forecasts\<close> list has exactly one entry
  for each item that iterating the upstream \<open>list\<close> gives, in the same order: the two
  lists have the same length, the entry at each position is the normalization of the
  item at that position and carries that item's \<open>dt\<close> as its \<open>datetime\<close>; and the items
  are the upstream list itself when \<open>list\<close> is a JSON array.
\<close>

theorem forecast_entries_follow_the_upstream_list:
  assumes "ForecastWeatherView_get cfg ev now store req = (Inr r, store', calls)"
    and "status r = 200"
    and "upstream_calls calls \<noteq> []"
  shows "\<exists>resp d items entries.
           upstream ev = Inr resp \<and> json resp = Inr d
           \<and> bind_exc (getitem d ''list'') py_iter = Inr items
           \<and> (\<forall>xs. getitem d ''list'' = Inr (PList xs) \<longrightarrow> items = xs)
           \<and> getitem (data r) ''forecasts'' = Inr (PList entries)
           \<and> length entries = length items
           \<and> (\<forall>i < length items. forecast_entry (items ! i) = Inr (entries ! i)
                 \<and> getitem (entries ! i) ''datetime'' = getitem (items ! i) ''dt'')"
proof -
  from forecast_view_cases [OF assms(1) refl refl] assms(3)
  obtain tres tcalls where
    t: "forecast_try cfg ev now store (strip (qd_get (query_params req) ''city'' []))
          (forecast_cache_key (strip (qd_get (query_params req) ''city'' []))) = (tres, store', tcalls)"
    and res: "(Inr r :: py_exception + response) = Inr (case tres of Inl e \<Rightarrow> forecast_except e | Inr r \<Rightarrow> r)"
    by (auto simp: upstream_calls_simps)
  have r: "r = (case tres of Inl e \<Rightarrow> forecast_except e | Inr r \<Rightarrow> r)" using res by simp
  have "\<exists>resp :: http_response. \<exists>fd. upstream ev = Inr resp \<and> bind_exc (json resp) forecast_data = Inr fd
          \<and> r = \<lparr>data = fd, status = 200\<rparr>"
  proof (cases tres)
    case (Inl e)
    then show ?thesis using r assms(2) status_forecast_except_not_ok [of e] by simp
  next
    case (Inr r')
    then show ?thesis using forecast_try_cases [OF t] r assms(2) by auto
  qed
  then obtain resp :: http_response and fd where up: "upstream ev = Inr resp"
    and b: "bind_exc (json resp) forecast_data = Inr fd" and rr: "r = \<lparr>data = fd, status = 200\<rparr>"
    by blast
  from bind_exc_Inr [OF b] obtain d where j: "json resp = Inr d" and fdd: "forecast_data d = Inr fd"
    by blast
  from forecast_data_Inr [OF fdd] obtain items es where
    i: "bind_exc (getitem d ''list'') py_iter = Inr items"
    and l: "list_all2 (\<lambda>item e. forecast_entry item = Inr e) items es"
    and g: "getitem fd ''forecasts'' = Inr (PList es)"
    by blast
  have len: "length es = length items" using l by (simp add: list_all2_lengthD)
  have nth: "forecast_entry (items ! i) = Inr (es ! i)
               \<and> getitem (es ! i) ''datetime'' = getitem (items ! i) ''dt''" if "i < length items" for i
    using list_all2_nthD [OF l that] forecast_entry_datetime by blast
  have arr: "items = xs" if "getitem d ''list'' = Inr (PList xs)" for xs
    using i that by (simp add: bind_exc_def)
  show ?thesis
    using up j i arr g len nth by (auto simp: rr)
qed

lemma strip_Paris: "strip ''Paris'' = ''Paris''"
  by code_simp

lemma lower_Paris: "lower ''Paris'' = ''paris''"
  by code_simp

lemma forecast_get_paris:
  "ForecastWeatherView_get example_settings
     (working_cache_env (Inr \<lparr>status_code = 200, json = Inr paris_body\<rparr>)) 100 Map.empty (city_request ''Paris'')
   = (Inr \<lparr>data = paris_payload, status = 200\<rparr>,
      [''weather_forecast_paris'' \<mapsto> (paris_payload, 1902)],
      [CacheGet ''weather_forecast_paris'',
       HttpGet ''https://api.example.org/data/2.5/forecast''
         [(''q'', PStr ''Paris''), (''appid'', PStr ''secret''), (''units'', PStr ''metric''), (''cnt'', PInt 40)] 10,
       CacheSet ''weather_forecast_paris'' paris_payload 1800])"
  by (simp add: ForecastWeatherView_get_def forecast_try_def cache_get_def cache_set_def working_cache_env_def
      example_settings_def city_request_def qd_get_def strip_Paris lower_Paris forecast_cache_key_def
      bind_exc_def forecast_data_paris Let_def)

theorem forecast_entries_follow_the_upstream_list_witness:
  "ForecastWeatherView_get example_settings
     (working_cache_env (Inr \<lparr>status_code = 200, json = Inr paris_body\<rparr>)) 100 Map.empty (city_request ''Paris'')
   = (Inr \<lparr>data = paris_payload, status = 200\<rparr>,
      [''weather_forecast_paris'' \<mapsto> (paris_payload, 1902)],
      [CacheGet ''weather_forecast_paris'',
       HttpGet ''https://api.example.org/data/2.5/forecast''
         [(''q'', PStr ''Paris''), (''appid'', PStr ''secret''), (''units'', PStr ''metric''), (''cnt'', PInt 40)] 10,
       CacheSet ''weather_forecast_paris'' paris_payload 1800])
   \<and> getitem paris_body ''list'' = Inr (PList [forecast_item_1, forecast_item_2])
   \<and> getitem paris_payload ''forecasts'' = Inr (PList [forecast_entry_1, forecast_entry_2])
   \<and> (\<exists>items entries.
         bind_exc (getitem paris_body ''list'') py_iter = Inr items
         \<and> getitem paris_payload ''forecasts'' = Inr (PList entries)
         \<and> length entries = length items)"
proof -
  have s: "status \<lparr>data = paris_payload, status = 200\<rparr> = 200" by simp
  have u: "upstream_calls
      [CacheGet ''weather_forecast_paris'',
       HttpGet ''https://api.example.org/data/2.5/forecast''
         [(''q'', PStr ''Paris''), (''appid'', PStr ''secret''), (''units'', PStr ''metric''), (''cnt'', PInt 40)] 10,
       CacheSet ''weather_forecast_paris'' paris_payload 1800] \<noteq> []"
    by (simp add: upstream_calls_def)
  have a: "getitem paris_body ''list'' = Inr (PList [forecast_item_1, forecast_item_2])"
    by (simp add: paris_body_def)
  have b: "getitem paris_payload ''forecasts'' = Inr (PList [forecast_entry_1, forecast_entry_2])"
    by (simp add: paris_payload_def)
  from forecast_entries_follow_the_upstream_list [OF forecast_get_paris s u]
  have "\<exists>items entries.
         bind_exc (getitem paris_body ''list'') py_iter = Inr items
         \<and> getitem paris_payload ''forecasts'' = Inr (PList entries)
         \<and> length entries = length items"
    by (auto simp: working_cache_env_def)
  then show ?thesis using forecast_get_paris a b by blast
qed

section \<open>Rounding and scaling of the upstream numbers\<close>










section \<open>The rounding rules of the normalization\<close>









end
